theory Spec2Isabelle
  imports Complex_Main
begin

section \<open>The result containers of the SAPHIR morphing notebook\<close>

text \<open>
  The repository is one notebook, \<^verbatim>\<open>create_result_containers.ipynb\<close>. Its code cells
  bind five constants, derive the grid dimensions \<^verbatim>\<open>NLAT\<close> and \<^verbatim>\<open>NLON\<close> from them, build
  the two coordinate arrays with \<^verbatim>\<open>np.linspace\<close>, allocate eight arrays with \<^verbatim>\<open>np.zeros\<close>
  and print the session's variables three times with \<^verbatim>\<open>whos\<close>.

  The model follows the cells statement by statement. A Python \<^verbatim>\<open>float\<close> is an IEEE
  binary64 number, an \<^verbatim>\<open>int\<close> is unbounded, every exception is a value of
  \<open>py_error\<close>, and the notebook's session is a record of its variables, each unbound
  (\<open>None\<close>) until the statement that assigns it has run. A statement is a function
  of the whole world: the session, what has been printed, and what lies outside the
  session, where the import finds numpy.
\<close>

subsection \<open>Binary64 arithmetic\<close>

text \<open>
  A float is a finite rational, an infinity or a NaN. The sign of a zero is not
  represented: the notebook never divides by a float zero without Python raising first,
  so no operation of it can observe that sign.
\<close>

datatype pyfloat = Fin rat | PosInf | NegInf | NaN

text \<open>
  Rounding to nearest, ties to even, with 53 significant bits. The magnitude
  \<open>a * 2 ^ e\<close> is first brought to \<open>a < 2 ^ 53\<close> by halving, then to
  \<open>2 ^ 52 \<le> a\<close> by doubling, the exponent never going below \<open>- 1074\<close> (the
  subnormal numbers); \<open>a\<close> is then rounded to an integer. A result of magnitude
  \<open>2 ^ 1024\<close> or more overflows to an infinity.
\<close>

function norm_down :: "rat \<Rightarrow> int \<Rightarrow> rat \<times> int" where
  "norm_down a e = (if 2 ^ 53 \<le> a then norm_down (a / 2) (e + 1) else (a, e))"
  by pat_completeness auto
termination
proof (relation "measure (\<lambda>(a, e). nat \<lfloor>a\<rfloor>)", goal_cases)
  case 1
  show ?case by simp
next
  case (2 a e)
  then have "(9007199254740992::rat) \<le> a" by simp
  then have "\<lfloor>a / 2\<rfloor> < \<lfloor>a\<rfloor>" and "0 < \<lfloor>a\<rfloor>" by linarith+
  then show ?case by simp
qed

function norm_up :: "rat \<Rightarrow> int \<Rightarrow> rat \<times> int" where
  "norm_up a e = (if a < 2 ^ 52 \<and> - 1074 < e then norm_up (2 * a) (e - 1) else (a, e))"
  by pat_completeness auto
termination
  by (relation "measure (\<lambda>(a, e). nat (e + 1074))") auto

declare norm_down.simps [simp del] norm_up.simps [simp del]

definition round_half_even :: "rat \<Rightarrow> int" where
  "round_half_even x = (let f = \<lfloor>x\<rfloor>; d = x - of_int f in
     if d < 1 / 2 then f else if 1 / 2 < d then f + 1 else if even f then f else f + 1)"

definition round_b64 :: "rat \<Rightarrow> pyfloat" where
  "round_b64 r = (if r = 0 then Fin 0 else
     (case norm_down \<bar>r\<bar> 0 of (a1, e1) \<Rightarrow>
      (case norm_up a1 e1 of (a, e) \<Rightarrow>
       (let v = of_int (round_half_even a) * 2 powi e in
        if 2 ^ 1024 \<le> v then (if 0 < r then PosInf else NegInf)
        else Fin (if 0 < r then v else - v)))))"

fun is_neg :: "pyfloat \<Rightarrow> bool" where
  "is_neg (Fin a) = (a < 0)"
| "is_neg NegInf = True"
| "is_neg _ = False"

fun fneg :: "pyfloat \<Rightarrow> pyfloat" where
  "fneg (Fin a) = Fin (- a)"
| "fneg PosInf = NegInf"
| "fneg NegInf = PosInf"
| "fneg NaN = NaN"

fun fadd :: "pyfloat \<Rightarrow> pyfloat \<Rightarrow> pyfloat" where
  "fadd (Fin a) (Fin b) = round_b64 (a + b)"
| "fadd NaN _ = NaN"
| "fadd _ NaN = NaN"
| "fadd PosInf NegInf = NaN"
| "fadd NegInf PosInf = NaN"
| "fadd PosInf _ = PosInf"
| "fadd _ PosInf = PosInf"
| "fadd NegInf _ = NegInf"
| "fadd _ NegInf = NegInf"

definition fsub :: "pyfloat \<Rightarrow> pyfloat \<Rightarrow> pyfloat" where
  "fsub a b = fadd a (fneg b)"

fun fmul :: "pyfloat \<Rightarrow> pyfloat \<Rightarrow> pyfloat" where
  "fmul (Fin a) (Fin b) = round_b64 (a * b)"
| "fmul NaN _ = NaN"
| "fmul _ NaN = NaN"
| "fmul x y = (if x = Fin 0 \<or> y = Fin 0 then NaN
               else if is_neg x = is_neg y then PosInf else NegInf)"

text \<open>
  Division as the hardware does it. A zero divisor is taken as \<open>+0.0\<close>; the notebook
  reaches this function only with a divisor that is not zero (Python raises on a zero
  divisor first, and \<^verbatim>\<open>linspace\<close> divides by \<^verbatim>\<open>num - 1\<close> only when \<^verbatim>\<open>num > 1\<close>).
\<close>

fun fdiv :: "pyfloat \<Rightarrow> pyfloat \<Rightarrow> pyfloat" where
  "fdiv (Fin a) (Fin b) =
     (if b = 0 then (if a = 0 then NaN else if 0 < a then PosInf else NegInf)
      else round_b64 (a / b))"
| "fdiv NaN _ = NaN"
| "fdiv _ NaN = NaN"
| "fdiv (Fin a) _ = Fin 0"
| "fdiv x (Fin b) = (if is_neg x = (b < 0) then PosInf else NegInf)"
| "fdiv _ _ = NaN"

text \<open>The order of floats; a NaN is below nothing and above nothing.\<close>

fun flt :: "pyfloat \<Rightarrow> pyfloat \<Rightarrow> bool" where
  "flt (Fin a) (Fin b) = (a < b)"
| "flt NaN _ = False"
| "flt _ NaN = False"
| "flt NegInf y = (y \<noteq> NegInf)"
| "flt x PosInf = (x \<noteq> PosInf)"
| "flt _ _ = False"

subsection \<open>Python's operations\<close>

datatype py_error = NameError string | ZeroDivisionError | ValueError | OverflowError

definition and_then :: "py_error + 'a \<Rightarrow> ('a \<Rightarrow> py_error + 'b) \<Rightarrow> py_error + 'b" where
  "and_then m f = (case m of Inl e \<Rightarrow> Inl e | Inr x \<Rightarrow> f x)"

text \<open>Reading a variable that no statement has bound yet raises NameError.\<close>

definition lookup :: "string \<Rightarrow> 'a option \<Rightarrow> py_error + 'a" where
  "lookup name v = (case v of None \<Rightarrow> Inl (NameError name) | Some x \<Rightarrow> Inr x)"

text \<open>A decimal literal such as \<^verbatim>\<open>359.75\<close> denotes the float nearest to it.\<close>

definition float_literal :: "rat \<Rightarrow> pyfloat" where
  "float_literal q = round_b64 q"

text \<open>\<^verbatim>\<open>float(n)\<close>: the nearest float, OverflowError when there is none.\<close>

definition int_to_float :: "int \<Rightarrow> py_error + pyfloat" where
  "int_to_float n = (case round_b64 (of_int n) of Fin v \<Rightarrow> Inr (Fin v) | _ \<Rightarrow> Inl OverflowError)"

text \<open>\<^verbatim>\<open>a / b\<close> on floats raises ZeroDivisionError on a zero divisor.\<close>

definition float_truediv :: "pyfloat \<Rightarrow> pyfloat \<Rightarrow> py_error + pyfloat" where
  "float_truediv a b = (if b = Fin 0 then Inl ZeroDivisionError else Inr (fdiv a b))"

text \<open>\<^verbatim>\<open>n / b\<close> with an int on the left converts it first.\<close>

definition int_truediv_float :: "int \<Rightarrow> pyfloat \<Rightarrow> py_error + pyfloat" where
  "int_truediv_float n b = and_then (int_to_float n) (\<lambda>a. float_truediv a b)"

text \<open>
  \<^verbatim>\<open>int(x)\<close> truncates towards zero; it raises ValueError on a NaN and OverflowError on
  an infinity.
\<close>

definition py_int :: "pyfloat \<Rightarrow> py_error + int" where
  "py_int x = (case x of
      Fin r \<Rightarrow> Inr (if 0 \<le> r then \<lfloor>r\<rfloor> else \<lceil>r\<rceil>)
    | NaN \<Rightarrow> Inl ValueError
    | _ \<Rightarrow> Inl OverflowError)"

subsection \<open>numpy's arrays\<close>

text \<open>
  An array of \<^verbatim>\<open>float64\<close>: its shape and its elements in row-major order. numpy is a
  library the notebook imports, not part of the repository; \<open>np_zeros\<close> and
  \<open>np_linspace\<close> follow numpy's own definitions of \<^verbatim>\<open>zeros\<close> and \<^verbatim>\<open>linspace\<close>.
  Running out of memory is not modelled.
\<close>

record ndarray =
  shape :: "nat list"
  data :: "pyfloat list"

text \<open>\<^verbatim>\<open>np.zeros(dims)\<close> raises ValueError on a negative dimension.\<close>

definition np_zeros :: "int list \<Rightarrow> py_error + ndarray" where
  "np_zeros dims =
     (if \<exists>d \<in> set dims. d < 0 then Inl ValueError
      else Inr \<lparr>shape = map nat dims,
                data = replicate (prod_list (map nat dims)) (Fin 0)\<rparr>)"

text \<open>
  \<^verbatim>\<open>arange(0, num)\<close> as floats. An index is exact as a float below \<open>2 ^ 53\<close>, and no
  array has that many elements.
\<close>

definition arange :: "nat \<Rightarrow> pyfloat list" where
  "arange num = map (\<lambda>i. Fin (of_nat i)) [0..<num]"

text \<open>
  The body of \<^verbatim>\<open>linspace(start, stop, num)\<close> with \<^verbatim>\<open>endpoint=True\<close>:
  \<^verbatim>\<open>
  div = num - 1
  y = arange(0, num)
  delta = stop - start
  if num > 1:
      step = delta / div
      if step == 0: y /= div; y = y * delta
      else:         y = y * step
  else:
      y = y * delta
  y += start
  if num > 1: y[-1] = stop
  \<close>
\<close>

definition linspace_step :: "pyfloat \<Rightarrow> pyfloat \<Rightarrow> nat \<Rightarrow> pyfloat" where
  "linspace_step start stop num = fdiv (fsub stop start) (Fin (of_nat (num - 1)))"

definition linspace_data :: "pyfloat \<Rightarrow> pyfloat \<Rightarrow> nat \<Rightarrow> pyfloat list" where
  "linspace_data start stop num =
     (let y = arange num;
          delta = fsub stop start;
          y1 = (if 1 < num then
                  (let step = linspace_step start stop num in
                   if step = Fin 0
                   then map (\<lambda>v. fmul (fdiv v (Fin (of_nat (num - 1)))) delta) y
                   else map (\<lambda>v. fmul v step) y)
                else map (\<lambda>v. fmul v delta) y);
          y2 = map (\<lambda>v. fadd v start) y1
      in if 1 < num then y2[num - 1 := stop] else y2)"

text \<open>
  \<^verbatim>\<open>np.linspace\<close> raises ValueError on a negative \<^verbatim>\<open>num\<close>, and multiplies both ends
  by \<^verbatim>\<open>1.0\<close> before anything else.
\<close>

definition np_linspace :: "pyfloat \<Rightarrow> pyfloat \<Rightarrow> int \<Rightarrow> py_error + ndarray" where
  "np_linspace start stop num =
     (if num < 0 then Inl ValueError
      else Inr \<lparr>shape = [nat num],
                data = linspace_data (fmul start (Fin 1)) (fmul stop (Fin 1)) (nat num)\<rparr>)"

text \<open>The same call with two ints as ends: each is converted to a float first.\<close>

definition np_linspace_int :: "int \<Rightarrow> int \<Rightarrow> int \<Rightarrow> py_error + ndarray" where
  "np_linspace_int start stop num =
     (if num < 0 then Inl ValueError
      else and_then (int_to_float start) (\<lambda>a.
           and_then (int_to_float stop) (\<lambda>b. np_linspace a b num)))"

subsection \<open>The session\<close>

text \<open>
  The variables of the notebook's session, in the order of their first assignment. A
  variable is \<open>None\<close> until it is bound. \<open>np\<close> is the imported module: its name
  and the file it was loaded from.
\<close>

datatype py_module = Module string string

record namespace =
  np :: "py_module option"
  DX :: "pyfloat option"
  SOUTH :: "int option"
  NORTH :: "int option"
  WEST :: "pyfloat option"
  EAST :: "pyfloat option"
  NLAT :: "int option"
  lat :: "ndarray option"
  NLON :: "int option"
  lon :: "ndarray option"
  WV :: "ndarray option"
  AT :: "ndarray option"
  WV_before :: "ndarray option"
  WV_after :: "ndarray option"
  dt_before :: "ndarray option"
  dt_after :: "ndarray option"
  DTMAX :: "int option"
  DTstack :: "int option"
  WV_stack :: "ndarray option"
  tobs_stack :: "ndarray option"

definition empty_namespace :: namespace where
  "empty_namespace =
     \<lparr>np = None, DX = None, SOUTH = None, NORTH = None, WEST = None, EAST = None,
      NLAT = None, lat = None, NLON = None, lon = None, WV = None, AT = None,
      WV_before = None, WV_after = None, dt_before = None, dt_after = None,
      DTMAX = None, DTstack = None, WV_stack = None, tobs_stack = None\<rparr>"

text \<open>
  What \<^verbatim>\<open>whos\<close> prints: one row for each bound variable, sorted by name (capitals
  first), with the variable's type and a summary of its value. An array's row gives its
  shape, its number of elements and its size in bytes, eight for each \<^verbatim>\<open>float64\<close>. A
  module's row gives the text of \<^verbatim>\<open>str(var)\<close>, which names the file the module was
  loaded from; IPython prints a text of 50 characters or more as its first 25, the mark
  \<^verbatim>\<open><...>\<close> and its last 25.
\<close>

datatype whos_info =
    IntVar int
  | FloatVar pyfloat
  | NdarrayVar "nat list" nat nat
  | ModuleVar string

type_synonym whos_row = "string \<times> whos_info"

definition whos_var :: "string \<Rightarrow> ('a \<Rightarrow> whos_info) \<Rightarrow> 'a option \<Rightarrow> whos_row list" where
  "whos_var name info v = (case v of None \<Rightarrow> [] | Some x \<Rightarrow> [(name, info x)])"

definition ndarray_info :: "ndarray \<Rightarrow> whos_info" where
  "ndarray_info a = NdarrayVar (shape a) (length (data a)) (8 * length (data a))"

definition module_repr :: "py_module \<Rightarrow> string" where
  "module_repr m = (case m of Module name file \<Rightarrow>
     ''<module '' @ [CHR 0x27] @ name @ [CHR 0x27] @ '' from '' @ [CHR 0x27] @ file @
     [CHR 0x27] @ ''>'')"

definition whos_abbreviate :: "string \<Rightarrow> string" where
  "whos_abbreviate s =
     (if length s < 50 then s else take 25 s @ ''<...>'' @ drop (length s - 25) s)"

definition module_info :: "py_module \<Rightarrow> whos_info" where
  "module_info m = ModuleVar (whos_abbreviate (module_repr m))"

definition whos :: "namespace \<Rightarrow> whos_row list" where
  "whos n =
     whos_var ''AT'' ndarray_info (AT n) @
     whos_var ''DTMAX'' IntVar (DTMAX n) @
     whos_var ''DTstack'' IntVar (DTstack n) @
     whos_var ''DX'' FloatVar (DX n) @
     whos_var ''EAST'' FloatVar (EAST n) @
     whos_var ''NLAT'' IntVar (NLAT n) @
     whos_var ''NLON'' IntVar (NLON n) @
     whos_var ''NORTH'' IntVar (NORTH n) @
     whos_var ''SOUTH'' IntVar (SOUTH n) @
     whos_var ''WEST'' FloatVar (WEST n) @
     whos_var ''WV'' ndarray_info (WV n) @
     whos_var ''WV_after'' ndarray_info (WV_after n) @
     whos_var ''WV_before'' ndarray_info (WV_before n) @
     whos_var ''WV_stack'' ndarray_info (WV_stack n) @
     whos_var ''dt_after'' ndarray_info (dt_after n) @
     whos_var ''dt_before'' ndarray_info (dt_before n) @
     whos_var ''lat'' ndarray_info (lat n) @
     whos_var ''lon'' ndarray_info (lon n) @
     whos_var ''np'' module_info (np n) @
     whos_var ''tobs_stack'' ndarray_info (tobs_stack n)"

text \<open>
  What lies outside the session: the file the interpreter finds the numpy package in,
  and everything else that persists (files and the like, here by name and content).
\<close>

record outside =
  numpy_file :: string
  storage :: "string \<rightharpoonup> string"

text \<open>
  The world a statement runs in: the session's variables, what has been printed so far
  (one entry for each \<^verbatim>\<open>whos\<close>), and what lies outside the session. A statement is a
  function of the whole world: it may read and write any part of it.
\<close>

record world =
  ns :: namespace
  stdout :: "whos_row list list"
  external :: outside

type_synonym stmt = "world \<Rightarrow> py_error + world"

subsection \<open>The statements of the notebook\<close>

text \<open>
  Cell 1: \<^verbatim>\<open>import numpy as np\<close>. The import reads the outside world: it loads the
  package from the file the interpreter finds it in, and the module it binds remembers
  that file. The import is taken to succeed.
\<close>

definition import_numpy :: stmt where
  "import_numpy w =
     Inr (w\<lparr>ns := (ns w)\<lparr>np := Some (Module ''numpy'' (numpy_file (external w)))\<rparr>\<rparr>)"

text \<open>
  Cell 2, the constants:
  \<^verbatim>\<open>
  DX = 0.5
  SOUTH = -30
  NORTH = 30
  WEST = 0.25
  EAST = 359.75
  \<close>
\<close>

definition assign_DX :: stmt where
  "assign_DX w = Inr (w\<lparr>ns := (ns w)\<lparr>DX := Some (float_literal (5 / 10))\<rparr>\<rparr>)"

definition assign_SOUTH :: stmt where
  "assign_SOUTH w = Inr (w\<lparr>ns := (ns w)\<lparr>SOUTH := Some (- 30)\<rparr>\<rparr>)"

definition assign_NORTH :: stmt where
  "assign_NORTH w = Inr (w\<lparr>ns := (ns w)\<lparr>NORTH := Some 30\<rparr>\<rparr>)"

definition assign_WEST :: stmt where
  "assign_WEST w = Inr (w\<lparr>ns := (ns w)\<lparr>WEST := Some (float_literal (25 / 100))\<rparr>\<rparr>)"

definition assign_EAST :: stmt where
  "assign_EAST w = Inr (w\<lparr>ns := (ns w)\<lparr>EAST := Some (float_literal (35975 / 100))\<rparr>\<rparr>)"

text \<open>\<^verbatim>\<open>NLAT = int( (NORTH-SOUTH)/DX )\<close>: an int minus an int, divided by a float.\<close>

definition assign_NLAT :: stmt where
  "assign_NLAT w =
     and_then (lookup ''NORTH'' (NORTH (ns w))) (\<lambda>north.
     and_then (lookup ''SOUTH'' (SOUTH (ns w))) (\<lambda>south.
     and_then (lookup ''DX'' (DX (ns w))) (\<lambda>dx.
     and_then (int_truediv_float (north - south) dx) (\<lambda>q.
     and_then (py_int q) (\<lambda>k.
     Inr (w\<lparr>ns := (ns w)\<lparr>NLAT := Some k\<rparr>\<rparr>))))))"

text \<open>\<^verbatim>\<open>lat = np.linspace(SOUTH, NORTH, NLAT)\<close>\<close>

definition assign_lat :: stmt where
  "assign_lat w =
     and_then (lookup ''np'' (np (ns w))) (\<lambda>_.
     and_then (lookup ''SOUTH'' (SOUTH (ns w))) (\<lambda>south.
     and_then (lookup ''NORTH'' (NORTH (ns w))) (\<lambda>north.
     and_then (lookup ''NLAT'' (NLAT (ns w))) (\<lambda>nlat.
     and_then (np_linspace_int south north nlat) (\<lambda>a.
     Inr (w\<lparr>ns := (ns w)\<lparr>lat := Some a\<rparr>\<rparr>))))))"

text \<open>\<^verbatim>\<open>NLON = int( (EAST-WEST)/DX )\<close>: all three are floats.\<close>

definition assign_NLON :: stmt where
  "assign_NLON w =
     and_then (lookup ''EAST'' (EAST (ns w))) (\<lambda>east.
     and_then (lookup ''WEST'' (WEST (ns w))) (\<lambda>west.
     and_then (lookup ''DX'' (DX (ns w))) (\<lambda>dx.
     and_then (float_truediv (fsub east west) dx) (\<lambda>q.
     and_then (py_int q) (\<lambda>k.
     Inr (w\<lparr>ns := (ns w)\<lparr>NLON := Some k\<rparr>\<rparr>))))))"

text \<open>\<^verbatim>\<open>lon = np.linspace(WEST, EAST, NLON)\<close>\<close>

definition assign_lon :: stmt where
  "assign_lon w =
     and_then (lookup ''np'' (np (ns w))) (\<lambda>_.
     and_then (lookup ''WEST'' (WEST (ns w))) (\<lambda>west.
     and_then (lookup ''EAST'' (EAST (ns w))) (\<lambda>east.
     and_then (lookup ''NLON'' (NLON (ns w))) (\<lambda>nlon.
     and_then (np_linspace west east nlon) (\<lambda>a.
     Inr (w\<lparr>ns := (ns w)\<lparr>lon := Some a\<rparr>\<rparr>))))))"

text \<open>
  \<^verbatim>\<open>X = np.zeros( (NLON,NLAT) )\<close>, the right-hand side of six assignments; \<open>bind\<close>
  stores the array under the name on the left.
\<close>

definition zeros_NLON_NLAT :: "(ndarray \<Rightarrow> namespace \<Rightarrow> namespace) \<Rightarrow> stmt" where
  "zeros_NLON_NLAT bind w =
     and_then (lookup ''np'' (np (ns w))) (\<lambda>_.
     and_then (lookup ''NLON'' (NLON (ns w))) (\<lambda>nlon.
     and_then (lookup ''NLAT'' (NLAT (ns w))) (\<lambda>nlat.
     and_then (np_zeros [nlon, nlat]) (\<lambda>a.
     Inr (w\<lparr>ns := bind a (ns w)\<rparr>)))))"

definition assign_WV :: stmt where
  "assign_WV = zeros_NLON_NLAT (\<lambda>a n. n\<lparr>WV := Some a\<rparr>)"

definition assign_AT :: stmt where
  "assign_AT = zeros_NLON_NLAT (\<lambda>a n. n\<lparr>AT := Some a\<rparr>)"

text \<open>Cell 4: the four intermediate containers.\<close>

definition assign_WV_before :: stmt where
  "assign_WV_before = zeros_NLON_NLAT (\<lambda>a n. n\<lparr>WV_before := Some a\<rparr>)"

definition assign_WV_after :: stmt where
  "assign_WV_after = zeros_NLON_NLAT (\<lambda>a n. n\<lparr>WV_after := Some a\<rparr>)"

definition assign_dt_before :: stmt where
  "assign_dt_before = zeros_NLON_NLAT (\<lambda>a n. n\<lparr>dt_before := Some a\<rparr>)"

definition assign_dt_after :: stmt where
  "assign_dt_after = zeros_NLON_NLAT (\<lambda>a n. n\<lparr>dt_after := Some a\<rparr>)"

text \<open>
  Cell 6:
  \<^verbatim>\<open>
  DTMAX = 6
  DTstack = 1
  WV_stack = np.zeros( (NLON,NLAT, 2*DTMAX+1) )
  tobs_stack = np.zeros( (NLON,NLAT, 2*DTMAX+1) )
  \<close>
\<close>

definition assign_DTMAX :: stmt where
  "assign_DTMAX w = Inr (w\<lparr>ns := (ns w)\<lparr>DTMAX := Some 6\<rparr>\<rparr>)"

definition assign_DTstack :: stmt where
  "assign_DTstack w = Inr (w\<lparr>ns := (ns w)\<lparr>DTstack := Some 1\<rparr>\<rparr>)"

definition zeros_stack :: "(ndarray \<Rightarrow> namespace \<Rightarrow> namespace) \<Rightarrow> stmt" where
  "zeros_stack bind w =
     and_then (lookup ''np'' (np (ns w))) (\<lambda>_.
     and_then (lookup ''NLON'' (NLON (ns w))) (\<lambda>nlon.
     and_then (lookup ''NLAT'' (NLAT (ns w))) (\<lambda>nlat.
     and_then (lookup ''DTMAX'' (DTMAX (ns w))) (\<lambda>dtmax.
     and_then (np_zeros [nlon, nlat, 2 * dtmax + 1]) (\<lambda>a.
     Inr (w\<lparr>ns := bind a (ns w)\<rparr>))))))"

definition assign_WV_stack :: stmt where
  "assign_WV_stack = zeros_stack (\<lambda>a n. n\<lparr>WV_stack := Some a\<rparr>)"

definition assign_tobs_stack :: stmt where
  "assign_tobs_stack = zeros_stack (\<lambda>a n. n\<lparr>tobs_stack := Some a\<rparr>)"

text \<open>Cells 3, 5 and 7: \<^verbatim>\<open>whos\<close> prints the session's variables and binds nothing.\<close>

definition whos_stmt :: stmt where
  "whos_stmt w = Inr (w\<lparr>stdout := stdout w @ [whos (ns w)]\<rparr>)"

subsection \<open>The notebook\<close>

text \<open>A cell is its statements in order; the last cell of the notebook is empty.\<close>

definition cell1 :: "stmt list" where
  "cell1 = [import_numpy]"

definition cell2 :: "stmt list" where
  "cell2 =
     [assign_DX, assign_SOUTH, assign_NORTH, assign_WEST, assign_EAST,
      assign_NLAT, assign_lat, assign_NLON, assign_lon, assign_WV, assign_AT]"

definition cell3 :: "stmt list" where
  "cell3 = [whos_stmt]"

definition cell4 :: "stmt list" where
  "cell4 =
     [assign_WV_before, assign_WV_after, assign_dt_before, assign_dt_after]"

definition cell5 :: "stmt list" where
  "cell5 = [whos_stmt]"

definition cell6 :: "stmt list" where
  "cell6 =
     [assign_DTMAX, assign_DTstack, assign_WV_stack, assign_tobs_stack]"

definition cell7 :: "stmt list" where
  "cell7 = [whos_stmt]"

definition cell8 :: "stmt list" where
  "cell8 = []"

definition notebook :: "stmt list" where
  "notebook = cell1 @ cell2 @ cell3 @ cell4 @ cell5 @ cell6 @ cell7 @ cell8"

text \<open>Running statements in order stops at the first exception.\<close>

fun run_stmts :: "stmt list \<Rightarrow> world \<Rightarrow> py_error + world" where
  "run_stmts [] w = Inr w"
| "run_stmts (f # fs) w = (case f w of Inl e \<Rightarrow> Inl e | Inr w' \<Rightarrow> run_stmts fs w')"

text \<open>
  The worlds an execution passes through: the one it starts in, then the one after each
  statement that succeeds.
\<close>

fun trace :: "stmt list \<Rightarrow> world \<Rightarrow> world list" where
  "trace [] w = [w]"
| "trace (f # fs) w = w # (case f w of Inl e \<Rightarrow> [] | Inr w' \<Rightarrow> trace fs w')"

text \<open>A fresh kernel: nothing bound, nothing printed.\<close>

definition fresh :: "outside \<Rightarrow> world" where
  "fresh ext = \<lparr>ns = empty_namespace, stdout = [], external = ext\<rparr>"

definition run_notebook :: "outside \<Rightarrow> py_error + world" where
  "run_notebook ext = run_stmts notebook (fresh ext)"

text \<open>
  The value of a variable when the notebook has run in the outside world \<open>ext\<close>, or the
  exception that stopped it.
\<close>

definition final :: "outside \<Rightarrow> (namespace \<Rightarrow> 'a) \<Rightarrow> py_error + 'a" where
  "final ext var = and_then (run_notebook ext) (\<lambda>w. Inr (var (ns w)))"

subsection \<open>What the notebook leaves behind\<close>

text \<open>
  The arrays the session holds at the end: the two kinds of zero-filled container and the
  two coordinate arrays; then the whole session, in which only \<open>np\<close> depends on the
  outside world.
\<close>

definition zeros_2d :: ndarray where
  "zeros_2d = \<lparr>shape = [719, 120], data = replicate 86280 (Fin 0)\<rparr>"

definition zeros_3d :: ndarray where
  "zeros_3d = \<lparr>shape = [719, 120, 13], data = replicate 1121640 (Fin 0)\<rparr>"

definition lat_array :: ndarray where
  "lat_array = \<lparr>shape = [120], data = linspace_data (Fin (- 30)) (Fin 30) 120\<rparr>"

definition lon_array :: ndarray where
  "lon_array = \<lparr>shape = [719], data = linspace_data (Fin (1 / 4)) (Fin (1439 / 4)) 719\<rparr>"

definition final_namespace :: "outside \<Rightarrow> namespace" where
  "final_namespace ext =
     \<lparr>np = Some (Module ''numpy'' (numpy_file ext)), DX = Some (Fin (1 / 2)), SOUTH = Some (- 30), NORTH = Some 30,
      WEST = Some (Fin (1 / 4)), EAST = Some (Fin (1439 / 4)),
      NLAT = Some 120, lat = Some lat_array, NLON = Some 719, lon = Some lon_array,
      WV = Some zeros_2d, AT = Some zeros_2d,
      WV_before = Some zeros_2d, WV_after = Some zeros_2d,
      dt_before = Some zeros_2d, dt_after = Some zeros_2d,
      DTMAX = Some 6, DTstack = Some 1,
      WV_stack = Some zeros_3d, tobs_stack = Some zeros_3d\<rparr>"

text \<open>
  The three tables of cells 3, 5 and 7, for the text \<open>r\<close> of the row of \<open>np\<close>. A row
  \<^verbatim>\<open>719x120: 86280 elems, type `float64`, 690240 bytes\<close> is
  \<open>NdarrayVar [719, 120] 86280 690240\<close>. The notebook stores the three tables with
  \<open>stored_np_row\<close> as the row of \<open>np\<close>.
\<close>

definition stored_np_row :: string where
  "stored_np_row = ''<module 'numpy' from '//a<...>kages/numpy/__init__.py'>''"

definition np_row :: "outside \<Rightarrow> string" where
  "np_row ext = whos_abbreviate (module_repr (Module ''numpy'' (numpy_file ext)))"


definition output_cell3 :: "string \<Rightarrow> whos_row list" where
  "output_cell3 r =
     [(''AT'', NdarrayVar [719, 120] 86280 690240),
      (''DX'', FloatVar (Fin (1 / 2))),
      (''EAST'', FloatVar (Fin (1439 / 4))),
      (''NLAT'', IntVar 120),
      (''NLON'', IntVar 719),
      (''NORTH'', IntVar 30),
      (''SOUTH'', IntVar (- 30)),
      (''WEST'', FloatVar (Fin (1 / 4))),
      (''WV'', NdarrayVar [719, 120] 86280 690240),
      (''lat'', NdarrayVar [120] 120 960),
      (''lon'', NdarrayVar [719] 719 5752),
      (''np'', ModuleVar r)]"

definition output_cell5 :: "string \<Rightarrow> whos_row list" where
  "output_cell5 r =
     [(''AT'', NdarrayVar [719, 120] 86280 690240),
      (''DX'', FloatVar (Fin (1 / 2))),
      (''EAST'', FloatVar (Fin (1439 / 4))),
      (''NLAT'', IntVar 120),
      (''NLON'', IntVar 719),
      (''NORTH'', IntVar 30),
      (''SOUTH'', IntVar (- 30)),
      (''WEST'', FloatVar (Fin (1 / 4))),
      (''WV'', NdarrayVar [719, 120] 86280 690240),
      (''WV_after'', NdarrayVar [719, 120] 86280 690240),
      (''WV_before'', NdarrayVar [719, 120] 86280 690240),
      (''dt_after'', NdarrayVar [719, 120] 86280 690240),
      (''dt_before'', NdarrayVar [719, 120] 86280 690240),
      (''lat'', NdarrayVar [120] 120 960),
      (''lon'', NdarrayVar [719] 719 5752),
      (''np'', ModuleVar r)]"

definition output_cell7 :: "string \<Rightarrow> whos_row list" where
  "output_cell7 r =
     [(''AT'', NdarrayVar [719, 120] 86280 690240),
      (''DTMAX'', IntVar 6),
      (''DTstack'', IntVar 1),
      (''DX'', FloatVar (Fin (1 / 2))),
      (''EAST'', FloatVar (Fin (1439 / 4))),
      (''NLAT'', IntVar 120),
      (''NLON'', IntVar 719),
      (''NORTH'', IntVar 30),
      (''SOUTH'', IntVar (- 30)),
      (''WEST'', FloatVar (Fin (1 / 4))),
      (''WV'', NdarrayVar [719, 120] 86280 690240),
      (''WV_after'', NdarrayVar [719, 120] 86280 690240),
      (''WV_before'', NdarrayVar [719, 120] 86280 690240),
      (''WV_stack'', NdarrayVar [719, 120, 13] 1121640 8973120),
      (''dt_after'', NdarrayVar [719, 120] 86280 690240),
      (''dt_before'', NdarrayVar [719, 120] 86280 690240),
      (''lat'', NdarrayVar [120] 120 960),
      (''lon'', NdarrayVar [719] 719 5752),
      (''np'', ModuleVar r),
      (''tobs_stack'', NdarrayVar [719, 120, 13] 1121640 8973120)]"

subsection \<open>Properties of a session\<close>

text \<open>
  \<open>sub_namespace n m\<close>: every variable bound in \<open>n\<close> is bound in \<open>m\<close> to the same
  value.
\<close>

definition agrees :: "'a option \<Rightarrow> 'a option \<Rightarrow> bool" where
  "agrees x y = (x = None \<or> x = y)"

definition sub_namespace :: "namespace \<Rightarrow> namespace \<Rightarrow> bool" where
  "sub_namespace n m =
     (agrees (np n) (np m) \<and> agrees (DX n) (DX m) \<and> agrees (SOUTH n) (SOUTH m) \<and>
      agrees (NORTH n) (NORTH m) \<and> agrees (WEST n) (WEST m) \<and> agrees (EAST n) (EAST m) \<and>
      agrees (NLAT n) (NLAT m) \<and> agrees (lat n) (lat m) \<and> agrees (NLON n) (NLON m) \<and>
      agrees (lon n) (lon m) \<and> agrees (WV n) (WV m) \<and> agrees (AT n) (AT m) \<and>
      agrees (WV_before n) (WV_before m) \<and> agrees (WV_after n) (WV_after m) \<and>
      agrees (dt_before n) (dt_before m) \<and> agrees (dt_after n) (dt_after m) \<and>
      agrees (DTMAX n) (DTMAX m) \<and> agrees (DTstack n) (DTstack m) \<and>
      agrees (WV_stack n) (WV_stack m) \<and> agrees (tobs_stack n) (tobs_stack m))"

text \<open>The six two-dimensional containers and the two stacks of a session.\<close>

definition containers_2d :: "namespace \<Rightarrow> ndarray option list" where
  "containers_2d n = [WV n, AT n, WV_before n, WV_after n, dt_before n, dt_after n]"

definition containers_3d :: "namespace \<Rightarrow> ndarray option list" where
  "containers_3d n = [WV_stack n, tobs_stack n]"

text \<open>An array all of whose elements are zero.\<close>

definition all_zero :: "ndarray \<Rightarrow> bool" where
  "all_zero a = (data a = replicate (length (data a)) (Fin 0))"

text \<open>Every container that exists in the session is all zero.\<close>

definition containers_zero :: "namespace \<Rightarrow> bool" where
  "containers_zero n =
     list_all (\<lambda>c. case c of None \<Rightarrow> True | Some a \<Rightarrow> all_zero a)
       (containers_2d n @ containers_3d n)"

text \<open>
  \<open>has_shape dims c\<close>: the container \<open>c\<close> does not exist yet, or its shape is \<open>dims\<close>
  and it holds as many elements as that shape has.
\<close>

definition has_shape :: "nat list \<Rightarrow> ndarray option \<Rightarrow> bool" where
  "has_shape dims c =
     (case c of None \<Rightarrow> True | Some a \<Rightarrow> shape a = dims \<and> length (data a) = prod_list dims)"

text \<open>
  The shapes agree: every two-dimensional container that exists has shape
  \<^verbatim>\<open>(719, 120)\<close> and every stack that exists has shape \<^verbatim>\<open>(719, 120, 13)\<close>; a dimension
  variable that is bound has the matching value, and a coordinate array that exists has
  that length.
\<close>

definition shapes_agree :: "namespace \<Rightarrow> bool" where
  "shapes_agree n =
     (list_all (has_shape [719, 120]) (containers_2d n) \<and>
      list_all (has_shape [719, 120, 13]) (containers_3d n) \<and>
      agrees (NLON n) (Some 719) \<and> agrees (NLAT n) (Some 120) \<and>
      agrees (DTMAX n) (Some 6) \<and>
      has_shape [719] (lon n) \<and> has_shape [120] (lat n))"

text \<open>
  The shape \<^verbatim>\<open>(NLON, NLAT)\<close> and the shape \<^verbatim>\<open>(NLON, NLAT, 2*DTMAX+1)\<close>, read from the
  session's variables.
\<close>

definition grid_shape :: "namespace \<Rightarrow> nat list option" where
  "grid_shape n = (case (NLON n, NLAT n) of
      (Some a, Some b) \<Rightarrow> Some [nat a, nat b]
    | _ \<Rightarrow> None)"

definition stack_shape :: "namespace \<Rightarrow> nat list option" where
  "stack_shape n = (case (NLON n, NLAT n, DTMAX n) of
      (Some a, Some b, Some d) \<Rightarrow> Some [nat a, nat b, nat (2 * d + 1)]
    | _ \<Rightarrow> None)"

text \<open>
  The dimensional formula of the specification, in exact arithmetic: the number of cells
  of width \<open>dx\<close> between \<open>lo\<close> and \<open>hi\<close>.
\<close>

definition dimension_formula :: "rat \<Rightarrow> rat \<Rightarrow> rat \<Rightarrow> int" where
  "dimension_formula lo hi dx = \<lfloor>(hi - lo) / dx\<rfloor>"

text \<open>
  The distance from each point of a coordinate array to the next, as an exact number;
  \<open>None\<close> where one of the two is not finite.
\<close>

definition spacing :: "pyfloat \<Rightarrow> pyfloat \<Rightarrow> rat option" where
  "spacing x y = (case (x, y) of (Fin a, Fin b) \<Rightarrow> Some (b - a) | _ \<Rightarrow> None)"

definition spacings :: "pyfloat list \<Rightarrow> rat option list" where
  "spacings xs = map2 spacing xs (tl xs)"

text \<open>\<open>near q eps g\<close>: the spacing \<open>g\<close> is within \<open>eps\<close> of \<open>q\<close>.\<close>

definition near :: "rat \<Rightarrow> rat \<Rightarrow> rat option \<Rightarrow> bool" where
  "near q eps g = (case g of None \<Rightarrow> False | Some d \<Rightarrow> \<bar>d - q\<bar> \<le> eps)"

text \<open>
  The variables the notebook computes: the two dimensions, the two coordinate arrays and
  the eight containers.
\<close>

definition computed :: "namespace \<Rightarrow> int option \<times> int option \<times> ndarray option list" where
  "computed n = (NLAT n, NLON n, [lat n, lon n] @ containers_2d n @ containers_3d n)"

text \<open>
  Two outside worlds with nothing stored. The first has numpy where the row the notebook
  stores for \<open>np\<close> fits; the second has it where a system-wide installation puts it.
\<close>

definition anaconda_outside :: outside where
  "anaconda_outside =
     \<lparr>numpy_file = ''//anaconda/lib/python3.6/site-packages/numpy/__init__.py'',
      storage = Map.empty\<rparr>"

definition system_outside :: outside where
  "system_outside =
     \<lparr>numpy_file = ''/usr/lib/python3/dist-packages/numpy/__init__.py'',
      storage = Map.empty\<rparr>"

text \<open>
  \<open>reached ext w\<close>: the session of \<open>w\<close> is a part of the final one, and the world
  outside the session is \<open>ext\<close>. A statement preserves a property of worlds when it
  leads from a world that has it only to worlds that have it.
\<close>

definition reached :: "outside \<Rightarrow> world \<Rightarrow> bool" where
  "reached ext w = (sub_namespace (ns w) (final_namespace ext) \<and> external w = ext)"

definition preserves :: "(world \<Rightarrow> bool) \<Rightarrow> stmt \<Rightarrow> bool" where
  "preserves P f = (\<forall>u u'. P u \<longrightarrow> f u = Inr u' \<longrightarrow> P u')"

section \<open>Rounding\<close>

text \<open>The two normalisation loops keep the value \<open>a * 2 ^ e\<close> and end in range.\<close>

lemma norm_down_props:
  "0 < a \<Longrightarrow> norm_down a e = (a', e') \<Longrightarrow>
     a' * 2 powi e' = a * 2 powi e \<and> 0 < a' \<and> a' < 2 ^ 53 \<and> e \<le> e'"
proof (induction a e rule: norm_down.induct)
  case (1 a e)
  show ?case
  proof (cases "2 ^ 53 \<le> a")
    case True
    then have rec: "norm_down (a / 2) (e + 1) = (a', e')"
      using "1.prems"(2) by (simp add: norm_down.simps [of a e])
    have "a' * 2 powi e' = a / 2 * 2 powi (e + 1) \<and> 0 < a' \<and> a' < 2 ^ 53 \<and> e + 1 \<le> e'"
      using "1.IH" [OF True _ rec] "1.prems"(1) by simp
    moreover have "a / 2 * 2 powi (e + 1) = a * 2 powi e"
      by (simp add: power_int_add)
    ultimately show ?thesis by auto
  next
    case False
    then have "a' = a" "e' = e"
      using "1.prems"(2) by (simp_all add: norm_down.simps [of a e])
    then show ?thesis using False "1.prems"(1) by simp
  qed
qed

lemma norm_up_props:
  "0 < a \<Longrightarrow> a < 2 ^ 53 \<Longrightarrow> - 1074 \<le> e \<Longrightarrow> norm_up a e = (a', e') \<Longrightarrow>
     a' * 2 powi e' = a * 2 powi e \<and> 0 < a' \<and> a' < 2 ^ 53 \<and> - 1074 \<le> e' \<and>
     (2 ^ 52 \<le> a' \<or> e' = - 1074)"
proof (induction a e rule: norm_up.induct)
  case (1 a e)
  show ?case
  proof (cases "a < 2 ^ 52 \<and> - 1074 < e")
    case True
    then have rec: "norm_up (2 * a) (e - 1) = (a', e')"
      using "1.prems"(4) by (simp add: norm_up.simps [of a e])
    have "a' * 2 powi e' = 2 * a * 2 powi (e - 1) \<and> 0 < a' \<and> a' < 2 ^ 53 \<and> - 1074 \<le> e' \<and>
      (2 ^ 52 \<le> a' \<or> e' = - 1074)"
      using "1.IH" [OF True _ _ _ rec] "1.prems"(1) True by simp
    moreover have "2 * a * 2 powi (e - 1) = a * 2 powi e"
      by (simp add: power_int_diff)
    ultimately show ?thesis by simp
  next
    case False
    then have "a' = a" "e' = e"
      using "1.prems"(4) by (auto simp add: norm_up.simps [of a e])
    then show ?thesis using False "1.prems" by auto
  qed
qed

lemma round_half_even_error: "\<bar>of_int (round_half_even x) - x\<bar> \<le> 1 / 2"
proof -
  have "of_int \<lfloor>x\<rfloor> \<le> x" and "x < of_int \<lfloor>x\<rfloor> + 1"
    by linarith+
  then show ?thesis
    unfolding round_half_even_def Let_def by (simp add: abs_if) linarith
qed

text \<open>
  Away from overflow, rounding gives a finite float within half a unit in the last place
  of its argument.
\<close>

lemma round_b64_error:
  assumes "\<bar>r\<bar> \<le> 2 ^ 1023"
  shows "\<exists>v. round_b64 r = Fin v \<and> \<bar>v - r\<bar> \<le> \<bar>r\<bar> / 2 ^ 53 + 1 / 2 ^ 1075"
proof (cases "r = 0")
  case True
  then show ?thesis by (simp add: round_b64_def)
next
  case False
  then have pos: "0 < \<bar>r\<bar>" by simp
  obtain a1 e1 where nd: "norm_down \<bar>r\<bar> 0 = (a1, e1)" by (cases "norm_down \<bar>r\<bar> 0")
  obtain a e where nu: "norm_up a1 e1 = (a, e)" by (cases "norm_up a1 e1")
  from norm_down_props [OF pos nd]
  have d: "a1 * 2 powi e1 = \<bar>r\<bar>" "0 < a1" "a1 < 2 ^ 53" "0 \<le> e1" by simp_all
  from norm_up_props [OF d(2) d(3) _ nu] d(4) d(1)
  have u: "a * 2 powi e = \<bar>r\<bar>" "2 ^ 52 \<le> a \<or> e = - 1074"
    by simp_all
  define m where "m = round_half_even a"
  define v where "v = of_int m * (2::rat) powi e"
  have p2: "(0::rat) < 2 powi e" by simp
  have "\<bar>v - \<bar>r\<bar>\<bar> = \<bar>of_int m - a\<bar> * 2 powi e"
    unfolding v_def u(1) [symmetric] by (simp add: abs_mult left_diff_distrib [symmetric])
  also have "\<dots> \<le> 1 / 2 * 2 powi e"
    using round_half_even_error [of a] p2 unfolding m_def by (intro mult_right_mono) simp_all
  finally have err: "\<bar>v - \<bar>r\<bar>\<bar> \<le> 2 powi e / 2" by simp
  have half_ulp: "2 powi e / 2 \<le> \<bar>r\<bar> / 2 ^ 53 + 1 / 2 ^ 1075"
  proof (cases "2 ^ 52 \<le> a")
    case True
    have "2 ^ 52 * 2 powi e \<le> a * 2 powi e"
      using True p2 by (intro mult_right_mono) simp_all
    then have "2 powi e \<le> \<bar>r\<bar> / 2 ^ 52" using u(1) by (simp add: field_simps)
    then show ?thesis by simp
  next
    case False
    then have "e = - 1074" using u(2) by simp
    then have "(2::rat) powi e / 2 = 1 / 2 ^ 1075"
      by (simp add: power_int_minus_divide)
    then show ?thesis using pos by simp
  qed
  have vbound: "v < 2 ^ 1024"
  proof -
    have "v \<le> \<bar>r\<bar> + (\<bar>r\<bar> / 2 ^ 53 + 1 / 2 ^ 1075)"
      using err half_ulp by linarith
    also have "\<dots> \<le> 2 ^ 1023 + (2 ^ 1023 / 2 ^ 53 + 1 / 2 ^ 1075)"
      using assms by (intro add_mono divide_right_mono) simp_all
    also have "\<dots> < 2 ^ 1024" by simp
    finally show ?thesis .
  qed
  have res: "round_b64 r = Fin (if 0 < r then v else - v)"
    using False nd nu vbound by (simp add: round_b64_def Let_def v_def m_def)
  show ?thesis
  proof (cases "0 < r")
    case True
    then show ?thesis using res err half_ulp by (intro exI [of _ v]) simp
  next
    case False
    with \<open>r \<noteq> 0\<close> have "r < 0" by simp
    then have "\<bar>- v - r\<bar> = \<bar>v - \<bar>r\<bar>\<bar>" by simp
    then show ?thesis using res err half_ulp \<open>r < 0\<close> by (intro exI [of _ "- v"]) simp
  qed
qed

text \<open>Evaluating a rounding at a given number.\<close>

lemma floor_rat_numeral: "\<lfloor>numeral a / numeral b :: rat\<rfloor> = numeral a div numeral b"
  using floor_divide_of_int_eq [of "numeral a" "numeral b", where ?'a = rat] by simp

lemma floor_rat_one_numeral: "\<lfloor>1 / numeral b :: rat\<rfloor> = 1 div numeral b"
  using floor_divide_of_int_eq [of 1 "numeral b", where ?'a = rat] by simp

lemmas round_eval = floor_rat_numeral floor_rat_one_numeral round_b64_def round_half_even_def
  norm_down.simps norm_up.simps Let_def power_int_minus_divide

text \<open>The notebook's constants and the quotients it takes of them are floats as they stand.\<close>

lemma round_exact:
  "round_b64 (1 / 2) = Fin (1 / 2)"
  "round_b64 (1 / 4) = Fin (1 / 4)"
  "round_b64 (1439 / 4) = Fin (1439 / 4)"
  "round_b64 (719 / 2) = Fin (719 / 2)"
  "round_b64 (- 30) = Fin (- 30)"
  "round_b64 30 = Fin 30"
  "round_b64 60 = Fin 60"
  "round_b64 120 = Fin 120"
  "round_b64 719 = Fin 719"
  by (simp_all add: round_eval)

text \<open>
  Checks of the rounding against known binary64 facts: the float of \<open>0.1\<close>, ties going
  to the even neighbour, the largest float and the overflow threshold, and the smallest
  subnormal.
\<close>

lemma round_b64_known:
  "round_b64 (1 / 10) = Fin (3602879701896397 / 2 ^ 55)"
  "round_b64 (2 ^ 53 + 1) = Fin (2 ^ 53)"
  "round_b64 (2 ^ 53 + 3) = Fin (2 ^ 53 + 4)"
  "round_b64 (- (1 / 3)) = Fin (- (6004799503160661 / 2 ^ 54))"
  by (simp_all add: round_eval)

lemma round_b64_limits:
  "round_b64 (2 ^ 1024 - 2 ^ 970) = PosInf"
  "round_b64 (2 ^ 1024 - 2 ^ 971) = Fin (2 ^ 1024 - 2 ^ 971)"
  "round_b64 (1 / 2 ^ 1075) = Fin 0"
  "round_b64 (3 / 2 ^ 1075) = Fin (1 / 2 ^ 1073)"
  by (simp_all add: round_eval)

section \<open>Running the statements\<close>

lemma and_then_Inr [simp]: "and_then (Inr x) f = f x"
  by (simp add: and_then_def)

lemma and_then_Inl [simp]: "and_then (Inl e) f = Inl e"
  by (simp add: and_then_def)

lemma lookup_Some [simp]: "lookup name (Some x) = Inr x"
  by (simp add: lookup_def)

lemma lookup_None [simp]: "lookup name None = Inl (NameError name)"
  by (simp add: lookup_def)

lemma assign_NLAT_run:
  "NORTH (ns w) = Some 30 \<Longrightarrow> SOUTH (ns w) = Some (- 30) \<Longrightarrow>
   DX (ns w) = Some (Fin (1 / 2)) \<Longrightarrow>
   assign_NLAT w = Inr (w\<lparr>ns := (ns w)\<lparr>NLAT := Some 120\<rparr>\<rparr>)"
  by (simp add: assign_NLAT_def int_truediv_float_def int_to_float_def float_truediv_def
      round_exact py_int_def)

lemma assign_NLON_run:
  "EAST (ns w) = Some (Fin (1439 / 4)) \<Longrightarrow> WEST (ns w) = Some (Fin (1 / 4)) \<Longrightarrow>
   DX (ns w) = Some (Fin (1 / 2)) \<Longrightarrow>
   assign_NLON w = Inr (w\<lparr>ns := (ns w)\<lparr>NLON := Some 719\<rparr>\<rparr>)"
  by (simp add: assign_NLON_def float_truediv_def fsub_def round_exact py_int_def)

lemma assign_lat_run:
  "np (ns w) \<noteq> None \<Longrightarrow> SOUTH (ns w) = Some (- 30) \<Longrightarrow> NORTH (ns w) = Some 30 \<Longrightarrow>
   NLAT (ns w) = Some 120 \<Longrightarrow>
   assign_lat w = Inr (w\<lparr>ns := (ns w)\<lparr>lat := Some lat_array\<rparr>\<rparr>)"
  by (cases "np (ns w)")
    (simp_all add: assign_lat_def np_linspace_int_def np_linspace_def int_to_float_def
      round_exact lat_array_def)

lemma assign_lon_run:
  "np (ns w) \<noteq> None \<Longrightarrow> WEST (ns w) = Some (Fin (1 / 4)) \<Longrightarrow>
   EAST (ns w) = Some (Fin (1439 / 4)) \<Longrightarrow> NLON (ns w) = Some 719 \<Longrightarrow>
   assign_lon w = Inr (w\<lparr>ns := (ns w)\<lparr>lon := Some lon_array\<rparr>\<rparr>)"
  by (cases "np (ns w)")
    (simp_all add: assign_lon_def np_linspace_def round_exact lon_array_def)

lemma zeros_NLON_NLAT_run:
  "np (ns w) \<noteq> None \<Longrightarrow> NLON (ns w) = Some 719 \<Longrightarrow> NLAT (ns w) = Some 120 \<Longrightarrow>
   zeros_NLON_NLAT bind w = Inr (w\<lparr>ns := bind zeros_2d (ns w)\<rparr>)"
  by (cases "np (ns w)") (simp_all add: zeros_NLON_NLAT_def np_zeros_def zeros_2d_def)

lemma zeros_stack_run:
  "np (ns w) \<noteq> None \<Longrightarrow> NLON (ns w) = Some 719 \<Longrightarrow> NLAT (ns w) = Some 120 \<Longrightarrow>
   DTMAX (ns w) = Some 6 \<Longrightarrow>
   zeros_stack bind w = Inr (w\<lparr>ns := bind zeros_3d (ns w)\<rparr>)"
  by (cases "np (ns w)") (simp_all add: zeros_stack_def np_zeros_def zeros_3d_def)

lemmas stmt_run = assign_NLAT_run assign_NLON_run assign_lat_run assign_lon_run
  zeros_NLON_NLAT_run zeros_stack_run

lemmas stmt_defs = import_numpy_def assign_DX_def assign_SOUTH_def assign_NORTH_def
  assign_WEST_def assign_EAST_def assign_WV_def assign_AT_def assign_WV_before_def
  assign_WV_after_def assign_dt_before_def assign_dt_after_def assign_DTMAX_def
  assign_DTstack_def assign_WV_stack_def assign_tobs_stack_def
  float_literal_def round_exact

lemmas cell_defs = cell1_def cell2_def cell3_def cell4_def cell5_def cell6_def cell7_def
  cell8_def

lemma length_linspace_data [simp]: "length (linspace_data start stop num) = num"
  by (simp add: linspace_data_def arange_def Let_def)

lemma whos_info_arrays [simp]:
  "ndarray_info zeros_2d = NdarrayVar [719, 120] 86280 690240"
  "ndarray_info zeros_3d = NdarrayVar [719, 120, 13] 1121640 8973120"
  "ndarray_info lat_array = NdarrayVar [120] 120 960"
  "ndarray_info lon_array = NdarrayVar [719] 719 5752"
  by (simp_all add: ndarray_info_def zeros_2d_def zeros_3d_def lat_array_def lon_array_def)

text \<open>
  From a fresh kernel, in any outside world, the notebook runs to its end, leaves the
  final session, and has printed the three tables with the row of \<open>np\<close> that the
  outside world gives.
\<close>

lemma run_notebook_result:
  "run_notebook ext =
     Inr \<lparr>ns = final_namespace ext,
          stdout = [output_cell3 (np_row ext), output_cell5 (np_row ext),
                    output_cell7 (np_row ext)],
          external = ext\<rparr>"
  by (simp add: run_notebook_def notebook_def cell_defs fresh_def stmt_defs
      stmt_run empty_namespace_def whos_stmt_def whos_def whos_var_def module_info_def
      np_row_def output_cell3_def output_cell5_def output_cell7_def final_namespace_def)

lemma final_eq [simp]: "final ext var = Inr (var (final_namespace ext))"
  by (simp add: final_def run_notebook_result)

text \<open>
  With numpy where the stored row of \<open>np\<close> fits, the tables printed are the ones the
  notebook stores; with numpy elsewhere the row differs.
\<close>

lemma np_row_anaconda: "np_row anaconda_outside = stored_np_row"
  by (simp add: np_row_def anaconda_outside_def whos_abbreviate_def module_repr_def
      stored_np_row_def)


lemma stored_outputs:
  "and_then (run_notebook anaconda_outside) (\<lambda>w. Inr (stdout w)) =
     Inr [output_cell3 stored_np_row, output_cell5 stored_np_row, output_cell7 stored_np_row]"
  by (simp add: run_notebook_result np_row_anaconda)

text \<open>
  The exceptions are there to be raised: a cell run before the one it depends on stops
  with a NameError, and the operations raise on the arguments Python and numpy refuse.
\<close>

lemma cell2_before_cell1: "run_stmts cell2 (fresh ext) = Inl (NameError ''np'')"
  by (simp add: cell_defs fresh_def stmt_defs stmt_run empty_namespace_def assign_lat_def)

lemma NLAT_before_constants: "assign_NLAT (fresh ext) = Inl (NameError ''NORTH'')"
  by (simp add: fresh_def empty_namespace_def assign_NLAT_def)

lemma operations_raise:
  "float_truediv (Fin 1) (Fin 0) = Inl ZeroDivisionError"
  "py_int NaN = Inl ValueError"
  "py_int PosInf = Inl OverflowError"
  "py_int (Fin (- (7 / 2))) = Inr (- 3)"
  "np_zeros [719, - 1] = Inl ValueError"
  "np_linspace (Fin 0) (Fin 1) (- 1) = Inl ValueError"
  by (simp_all add: float_truediv_def py_int_def np_zeros_def np_linspace_def ceiling_def
      floor_rat_numeral)

section \<open>Every point of the execution\<close>

lemma trace_length: "run_stmts fs w = Inr w' \<Longrightarrow> length (trace fs w) = Suc (length fs)"
  by (induction fs arbitrary: w) (auto split: sum.splits)

lemma trace_invariant:
  "P w \<Longrightarrow> (\<forall>f \<in> set fs. \<forall>u u'. P u \<longrightarrow> f u = Inr u' \<longrightarrow> P u') \<Longrightarrow>
     list_all P (trace fs w)"
proof (induction fs arbitrary: w)
  case Nil
  then show ?case by simp
next
  case (Cons f fs)
  show ?case
  proof (cases "f w")
    case (Inl e)
    then show ?thesis using Cons.prems(1) by simp
  next
    case (Inr w')
    have "P w'" using Cons.prems Inr by (meson list.set_intros(1))
    moreover have "\<forall>g \<in> set fs. \<forall>u u'. P u \<longrightarrow> g u = Inr u' \<longrightarrow> P u'"
      using Cons.prems(2) by (meson list.set_intros(2))
    ultimately have "list_all P (trace fs w')" by (rule Cons.IH)
    then show ?thesis using Cons.prems(1) Inr by simp
  qed
qed

text \<open>
  Every statement of the notebook, run in a world whose bound variables have their final
  values, binds one more variable to its final value and leaves the outside as it is.
\<close>

lemma agrees_refl [simp]: "agrees x x"
  by (simp add: agrees_def)

lemma agrees_None [simp]: "agrees None y"
  by (simp add: agrees_def)

lemma agrees_bound: "agrees v (Some c) \<Longrightarrow> v \<noteq> None \<Longrightarrow> v = Some c"
  by (simp add: agrees_def)

lemma reached_fields:
  assumes "reached ext w"
  shows "agrees (np (ns w)) (Some (Module ''numpy'' (numpy_file ext)))" and "agrees (DX (ns w)) (Some (Fin (1 / 2)))"
    and "agrees (SOUTH (ns w)) (Some (- 30))" and "agrees (NORTH (ns w)) (Some 30)"
    and "agrees (WEST (ns w)) (Some (Fin (1 / 4)))" and "agrees (EAST (ns w)) (Some (Fin (1439 / 4)))"
    and "agrees (NLAT (ns w)) (Some 120)" and "agrees (NLON (ns w)) (Some 719)"
    and "agrees (DTMAX (ns w)) (Some 6)"
  using assms by (simp_all add: reached_def sub_namespace_def final_namespace_def)

lemma lookup_Inr: "lookup name v = Inr x \<longleftrightarrow> v = Some x"
  by (cases v) simp_all

lemma and_then_lookup_Inr:
  "and_then (lookup name v) f = Inr y \<Longrightarrow> v \<noteq> None"
  by (cases v) simp_all

lemma constants_reached:
  assumes "reached ext w"
  shows "import_numpy w = Inr w' \<Longrightarrow> reached ext w'"
    and "assign_DX w = Inr w' \<Longrightarrow> reached ext w'"
    and "assign_SOUTH w = Inr w' \<Longrightarrow> reached ext w'"
    and "assign_NORTH w = Inr w' \<Longrightarrow> reached ext w'"
    and "assign_WEST w = Inr w' \<Longrightarrow> reached ext w'"
    and "assign_EAST w = Inr w' \<Longrightarrow> reached ext w'"
    and "assign_DTMAX w = Inr w' \<Longrightarrow> reached ext w'"
    and "assign_DTstack w = Inr w' \<Longrightarrow> reached ext w'"
  using assms by (auto simp: stmt_defs reached_def sub_namespace_def final_namespace_def)

lemma assign_NLAT_reached:
  assumes "reached ext w" and "assign_NLAT w = Inr w'"
  shows "reached ext w'"
proof -
  note f = reached_fields [OF assms(1)]
  have "NORTH (ns w) \<noteq> None"
    using assms(2) unfolding assign_NLAT_def by (rule and_then_lookup_Inr)
  then have 1: "NORTH (ns w) = Some 30" using f(4) by (rule agrees_bound [rotated])
  have "SOUTH (ns w) \<noteq> None"
    using assms(2) unfolding assign_NLAT_def by (cases "SOUTH (ns w)") (simp_all add: 1)
  then have 2: "SOUTH (ns w) = Some (- 30)" using f(3) by (rule agrees_bound [rotated])
  have "DX (ns w) \<noteq> None"
    using assms(2) unfolding assign_NLAT_def by (cases "DX (ns w)") (simp_all add: 1 2)
  then have 3: "DX (ns w) = Some (Fin (1 / 2))" using f(2) by (rule agrees_bound [rotated])
  have "w' = w\<lparr>ns := (ns w)\<lparr>NLAT := Some 120\<rparr>\<rparr>"
    using assign_NLAT_run [OF 1 2 3] assms(2) by simp
  then show ?thesis
    using assms(1) by (simp add: reached_def sub_namespace_def final_namespace_def)
qed

lemma assign_NLON_reached:
  assumes "reached ext w" and "assign_NLON w = Inr w'"
  shows "reached ext w'"
proof -
  note f = reached_fields [OF assms(1)]
  have "EAST (ns w) \<noteq> None"
    using assms(2) unfolding assign_NLON_def by (rule and_then_lookup_Inr)
  then have 1: "EAST (ns w) = Some (Fin (1439 / 4))" using f(6) by (rule agrees_bound [rotated])
  have "WEST (ns w) \<noteq> None"
    using assms(2) unfolding assign_NLON_def by (cases "WEST (ns w)") (simp_all add: 1)
  then have 2: "WEST (ns w) = Some (Fin (1 / 4))" using f(5) by (rule agrees_bound [rotated])
  have "DX (ns w) \<noteq> None"
    using assms(2) unfolding assign_NLON_def by (cases "DX (ns w)") (simp_all add: 1 2)
  then have 3: "DX (ns w) = Some (Fin (1 / 2))" using f(2) by (rule agrees_bound [rotated])
  have "w' = w\<lparr>ns := (ns w)\<lparr>NLON := Some 719\<rparr>\<rparr>"
    using assign_NLON_run [OF 1 2 3] assms(2) by simp
  then show ?thesis
    using assms(1) by (simp add: reached_def sub_namespace_def final_namespace_def)
qed

lemma assign_lat_reached:
  assumes "reached ext w" and "assign_lat w = Inr w'"
  shows "reached ext w'"
proof -
  note f = reached_fields [OF assms(1)]
  have "np (ns w) \<noteq> None"
    using assms(2) unfolding assign_lat_def by (rule and_then_lookup_Inr)
  then have 0: "np (ns w) \<noteq> None" .
  then obtain m where m: "np (ns w) = Some m" by blast
  have "SOUTH (ns w) \<noteq> None"
    using assms(2) unfolding assign_lat_def by (cases "SOUTH (ns w)") (simp_all add: m)
  then have 1: "SOUTH (ns w) = Some (- 30)" using f(3) by (rule agrees_bound [rotated])
  have "NORTH (ns w) \<noteq> None"
    using assms(2) unfolding assign_lat_def by (cases "NORTH (ns w)") (simp_all add: m 1)
  then have 2: "NORTH (ns w) = Some 30" using f(4) by (rule agrees_bound [rotated])
  have "NLAT (ns w) \<noteq> None"
    using assms(2) unfolding assign_lat_def by (cases "NLAT (ns w)") (simp_all add: m 1 2)
  then have 3: "NLAT (ns w) = Some 120" using f(7) by (rule agrees_bound [rotated])
  have "w' = w\<lparr>ns := (ns w)\<lparr>lat := Some lat_array\<rparr>\<rparr>"
    using assign_lat_run [OF 0 1 2 3] assms(2) by simp
  then show ?thesis
    using assms(1) by (simp add: reached_def sub_namespace_def final_namespace_def)
qed

lemma assign_lon_reached:
  assumes "reached ext w" and "assign_lon w = Inr w'"
  shows "reached ext w'"
proof -
  note f = reached_fields [OF assms(1)]
  have "np (ns w) \<noteq> None"
    using assms(2) unfolding assign_lon_def by (rule and_then_lookup_Inr)
  then have 0: "np (ns w) \<noteq> None" .
  then obtain m where m: "np (ns w) = Some m" by blast
  have "WEST (ns w) \<noteq> None"
    using assms(2) unfolding assign_lon_def by (cases "WEST (ns w)") (simp_all add: m)
  then have 1: "WEST (ns w) = Some (Fin (1 / 4))" using f(5) by (rule agrees_bound [rotated])
  have "EAST (ns w) \<noteq> None"
    using assms(2) unfolding assign_lon_def by (cases "EAST (ns w)") (simp_all add: m 1)
  then have 2: "EAST (ns w) = Some (Fin (1439 / 4))" using f(6) by (rule agrees_bound [rotated])
  have "NLON (ns w) \<noteq> None"
    using assms(2) unfolding assign_lon_def by (cases "NLON (ns w)") (simp_all add: m 1 2)
  then have 3: "NLON (ns w) = Some 719" using f(8) by (rule agrees_bound [rotated])
  have "w' = w\<lparr>ns := (ns w)\<lparr>lon := Some lon_array\<rparr>\<rparr>"
    using assign_lon_run [OF 0 1 2 3] assms(2) by simp
  then show ?thesis
    using assms(1) by (simp add: reached_def sub_namespace_def final_namespace_def)
qed

lemma zeros_NLON_NLAT_result:
  assumes "reached ext w" and "zeros_NLON_NLAT bind w = Inr w'"
  shows "w' = w\<lparr>ns := bind zeros_2d (ns w)\<rparr>"
proof -
  note f = reached_fields [OF assms(1)]
  have "np (ns w) \<noteq> None"
    using assms(2) unfolding zeros_NLON_NLAT_def by (rule and_then_lookup_Inr)
  then have 0: "np (ns w) \<noteq> None" .
  then obtain m where m: "np (ns w) = Some m" by blast
  have "NLON (ns w) \<noteq> None"
    using assms(2) unfolding zeros_NLON_NLAT_def by (cases "NLON (ns w)") (simp_all add: m)
  then have 1: "NLON (ns w) = Some 719" using f(8) by (rule agrees_bound [rotated])
  have "NLAT (ns w) \<noteq> None"
    using assms(2) unfolding zeros_NLON_NLAT_def by (cases "NLAT (ns w)") (simp_all add: m 1)
  then have 2: "NLAT (ns w) = Some 120" using f(7) by (rule agrees_bound [rotated])
  show ?thesis
    using zeros_NLON_NLAT_run [OF 0 1 2, of bind] assms(2) by simp
qed

lemma zeros_stack_result:
  assumes "reached ext w" and "zeros_stack bind w = Inr w'"
  shows "w' = w\<lparr>ns := bind zeros_3d (ns w)\<rparr>"
proof -
  note f = reached_fields [OF assms(1)]
  have "np (ns w) \<noteq> None"
    using assms(2) unfolding zeros_stack_def by (rule and_then_lookup_Inr)
  then have 0: "np (ns w) \<noteq> None" .
  then obtain m where m: "np (ns w) = Some m" by blast
  have "NLON (ns w) \<noteq> None"
    using assms(2) unfolding zeros_stack_def by (cases "NLON (ns w)") (simp_all add: m)
  then have 1: "NLON (ns w) = Some 719" using f(8) by (rule agrees_bound [rotated])
  have "NLAT (ns w) \<noteq> None"
    using assms(2) unfolding zeros_stack_def by (cases "NLAT (ns w)") (simp_all add: m 1)
  then have 2: "NLAT (ns w) = Some 120" using f(7) by (rule agrees_bound [rotated])
  have "DTMAX (ns w) \<noteq> None"
    using assms(2) unfolding zeros_stack_def by (cases "DTMAX (ns w)") (simp_all add: m 1 2)
  then have 3: "DTMAX (ns w) = Some 6" using f(9) by (rule agrees_bound [rotated])
  show ?thesis
    using zeros_stack_run [OF 0 1 2 3, of bind] assms(2) by simp
qed

lemma zeros_2d_reached:
  assumes "reached ext w" and "zeros_NLON_NLAT bind w = Inr w'"
    and "sub_namespace (bind zeros_2d (ns w)) (final_namespace ext)"
  shows "reached ext w'"
  using zeros_NLON_NLAT_result [OF assms(1,2)] assms(1,3) by (simp add: reached_def)

lemma zeros_3d_reached:
  assumes "reached ext w" and "zeros_stack bind w = Inr w'"
    and "sub_namespace (bind zeros_3d (ns w)) (final_namespace ext)"
  shows "reached ext w'"
  using zeros_stack_result [OF assms(1,2)] assms(1,3) by (simp add: reached_def)

lemma containers_reached:
  assumes "reached ext w"
  shows "assign_WV w = Inr w' \<Longrightarrow> reached ext w'"
    and "assign_AT w = Inr w' \<Longrightarrow> reached ext w'"
    and "assign_WV_before w = Inr w' \<Longrightarrow> reached ext w'"
    and "assign_WV_after w = Inr w' \<Longrightarrow> reached ext w'"
    and "assign_dt_before w = Inr w' \<Longrightarrow> reached ext w'"
    and "assign_dt_after w = Inr w' \<Longrightarrow> reached ext w'"
    and "assign_WV_stack w = Inr w' \<Longrightarrow> reached ext w'"
    and "assign_tobs_stack w = Inr w' \<Longrightarrow> reached ext w'"
proof -
  have upd: "sub_namespace ((ns w)\<lparr>WV := Some zeros_2d\<rparr>) (final_namespace ext)"
    "sub_namespace ((ns w)\<lparr>AT := Some zeros_2d\<rparr>) (final_namespace ext)"
    "sub_namespace ((ns w)\<lparr>WV_before := Some zeros_2d\<rparr>) (final_namespace ext)"
    "sub_namespace ((ns w)\<lparr>WV_after := Some zeros_2d\<rparr>) (final_namespace ext)"
    "sub_namespace ((ns w)\<lparr>dt_before := Some zeros_2d\<rparr>) (final_namespace ext)"
    "sub_namespace ((ns w)\<lparr>dt_after := Some zeros_2d\<rparr>) (final_namespace ext)"
    "sub_namespace ((ns w)\<lparr>WV_stack := Some zeros_3d\<rparr>) (final_namespace ext)"
    "sub_namespace ((ns w)\<lparr>tobs_stack := Some zeros_3d\<rparr>) (final_namespace ext)"
    using assms by (simp_all add: reached_def sub_namespace_def final_namespace_def)
  show "assign_WV w = Inr w' \<Longrightarrow> reached ext w'"
    unfolding assign_WV_def by (erule zeros_2d_reached [OF assms]) (rule upd)
  show "assign_AT w = Inr w' \<Longrightarrow> reached ext w'"
    unfolding assign_AT_def by (erule zeros_2d_reached [OF assms]) (rule upd)
  show "assign_WV_before w = Inr w' \<Longrightarrow> reached ext w'"
    unfolding assign_WV_before_def by (erule zeros_2d_reached [OF assms]) (rule upd)
  show "assign_WV_after w = Inr w' \<Longrightarrow> reached ext w'"
    unfolding assign_WV_after_def by (erule zeros_2d_reached [OF assms]) (rule upd)
  show "assign_dt_before w = Inr w' \<Longrightarrow> reached ext w'"
    unfolding assign_dt_before_def by (erule zeros_2d_reached [OF assms]) (rule upd)
  show "assign_dt_after w = Inr w' \<Longrightarrow> reached ext w'"
    unfolding assign_dt_after_def by (erule zeros_2d_reached [OF assms]) (rule upd)
  show "assign_WV_stack w = Inr w' \<Longrightarrow> reached ext w'"
    unfolding assign_WV_stack_def by (erule zeros_3d_reached [OF assms]) (rule upd)
  show "assign_tobs_stack w = Inr w' \<Longrightarrow> reached ext w'"
    unfolding assign_tobs_stack_def by (erule zeros_3d_reached [OF assms]) (rule upd)
qed

lemma preservesI:
  assumes "\<And>w w'. reached ext w \<Longrightarrow> f w = Inr w' \<Longrightarrow> reached ext w'"
  shows "preserves (reached ext) f"
  using assms unfolding preserves_def by blast

lemma whos_preserves: "preserves (reached ext) whos_stmt"
  by (auto simp: preserves_def whos_stmt_def reached_def)

lemmas stmt_preserves =
  constants_reached [THEN preservesI]
  assign_NLAT_reached [THEN preservesI]
  assign_lat_reached [THEN preservesI]
  assign_NLON_reached [THEN preservesI]
  assign_lon_reached [THEN preservesI]
  containers_reached [THEN preservesI]
  whos_preserves

lemma notebook_preserves: "list_all (preserves (reached ext)) notebook"
  by (simp add: notebook_def cell_defs stmt_preserves)

text \<open>
  So at every point of the execution the session is a part of the final one, and the
  world outside it is as it was.
\<close>

lemma trace_reached: "list_all (reached ext) (trace notebook (fresh ext))"
proof (rule trace_invariant)
  show "reached ext (fresh ext)"
    by (simp add: reached_def fresh_def sub_namespace_def empty_namespace_def)
  show "\<forall>f \<in> set notebook. \<forall>u u'. reached ext u \<longrightarrow> f u = Inr u' \<longrightarrow> reached ext u'"
    using notebook_preserves [of ext] by (simp add: list_all_iff preserves_def)
qed

section \<open>The coordinate arrays\<close>

text \<open>
  One element of \<^verbatim>\<open>linspace\<close>, \<^verbatim>\<open>i * step + start\<close> with its two roundings, is within
  \<open>2 ^ - 42\<close> of the exact value for numbers of the size of the notebook's.
\<close>

lemma elem_error:
  assumes s: "0 \<le> s" and p: "of_nat i * s \<le> 512" and c: "\<bar>c\<bar> \<le> 512"
  shows "\<exists>v. fadd (fmul (Fin (of_nat i)) (Fin s)) (Fin c) = Fin v \<and>
    \<bar>v - (of_nat i * s + c)\<bar> \<le> 1 / 2 ^ 42"
proof -
  define x where "x = of_nat i * s"
  have x0: "0 \<le> x" and x1: "x \<le> 512" using s p by (simp_all add: x_def)
  have "\<bar>x\<bar> \<le> 2 ^ 1023" using x0 x1 by simp
  from round_b64_error [OF this] obtain y
    where y: "round_b64 x = Fin y" and "\<bar>y - x\<bar> \<le> \<bar>x\<bar> / 2 ^ 53 + 1 / 2 ^ 1075"
    by blast
  moreover have "\<bar>x\<bar> / 2 ^ 53 \<le> 512 / 2 ^ 53"
    using x0 x1 by (intro divide_right_mono) simp_all
  ultimately have ey: "\<bar>y - x\<bar> \<le> 512 / 2 ^ 53 + 1 / 2 ^ 1075" by linarith
  have "512 / 2 ^ 53 + 1 / 2 ^ 1075 \<le> (1::rat)" by simp
  then have yc: "\<bar>y + c\<bar> \<le> 1025" using ey x0 x1 c by linarith
  then have "\<bar>y + c\<bar> \<le> 2 ^ 1023" by simp
  from round_b64_error [OF this] obtain v
    where v: "round_b64 (y + c) = Fin v"
      and "\<bar>v - (y + c)\<bar> \<le> \<bar>y + c\<bar> / 2 ^ 53 + 1 / 2 ^ 1075"
    by blast
  moreover have "\<bar>y + c\<bar> / 2 ^ 53 \<le> 1025 / 2 ^ 53"
    using yc by (intro divide_right_mono) simp_all
  ultimately have ev: "\<bar>v - (y + c)\<bar> \<le> 1025 / 2 ^ 53 + 1 / 2 ^ 1075" by linarith
  have "(512 / 2 ^ 53 + 1 / 2 ^ 1075) + (1025 / 2 ^ 53 + 1 / 2 ^ 1075) \<le> (1::rat) / 2 ^ 42"
    by simp
  then have "\<bar>v - (x + c)\<bar> \<le> 1 / 2 ^ 42" using ey ev by linarith
  moreover have "fadd (fmul (Fin (of_nat i)) (Fin s)) (Fin c) = Fin v"
    using y v by (simp add: x_def)
  ultimately show ?thesis unfolding x_def by blast
qed

text \<open>
  A list of floats whose element \<open>i\<close> is within \<open>e\<close> of \<open>i * s + c\<close>, but for the
  last, which is \<open>b\<close>: it increases strictly when \<open>s\<close> is more than \<open>2 * e\<close> and
  \<open>b\<close> is beyond the element before it.
\<close>

lemma grid_sorted:
  fixes s c b e :: rat
  assumes len: "length xs = Suc n"
    and el: "\<And>i. i < n \<Longrightarrow> \<exists>v. xs ! i = Fin v \<and> \<bar>v - (of_nat i * s + c)\<bar> \<le> e"
    and last: "xs ! n = Fin b"
    and gap: "2 * e < s"
    and final_gap: "of_nat (n - 1) * s + c + e < b"
  shows "sorted_wrt flt xs"
  unfolding sorted_wrt_iff_nth_less
proof (intro allI impI)
  fix i j
  assume ij: "i < j" and j: "j < length xs"
  from ij j len have i: "i < n" by simp
  from el [OF i] obtain vi where vi: "xs ! i = Fin vi" "\<bar>vi - (of_nat i * s + c)\<bar> \<le> e"
    by blast
  have s0: "0 \<le> s" using gap vi(2) by linarith
  show "flt (xs ! i) (xs ! j)"
  proof (cases "j < n")
    case True
    from el [OF True] obtain vj where vj: "xs ! j = Fin vj" "\<bar>vj - (of_nat j * s + c)\<bar> \<le> e"
      by blast
    have "(of_nat (Suc i) :: rat) \<le> of_nat j" using ij by simp
    then have "of_nat (Suc i) * s \<le> of_nat j * s" using s0 by (rule mult_right_mono)
    then have "of_nat i * s + s \<le> of_nat j * s" by (simp add: algebra_simps)
    then have "vi < vj" using vi(2) vj(2) gap by linarith
    then show ?thesis by (simp add: vi vj)
  next
    case False
    then have jn: "j = n" using j len by simp
    have "(of_nat i :: rat) \<le> of_nat (n - 1)" using i by simp
    then have "of_nat i * s \<le> of_nat (n - 1) * s" using s0 by (rule mult_right_mono)
    then have "vi < b" using vi(2) final_gap by linarith
    then show ?thesis by (simp add: vi jn last)
  qed
qed

text \<open>
  In such a list every point is about \<open>s\<close> from the next: within \<open>eps\<close> of \<open>q\<close>
  when \<open>s\<close> is close enough to \<open>q\<close>.
\<close>

lemma spacings_nth:
  "k < length xs - 1 \<Longrightarrow> spacings xs ! k = spacing (xs ! k) (xs ! Suc k)"
  by (simp add: spacings_def nth_tl)

lemma length_spacings [simp]: "length (spacings xs) = length xs - 1"
  by (simp add: spacings_def)

lemma grid_spacings:
  fixes s c b e q eps :: rat
  assumes len: "length xs = Suc n"
    and el: "\<And>i. i < n \<Longrightarrow> \<exists>v. xs ! i = Fin v \<and> \<bar>v - (of_nat i * s + c)\<bar> \<le> e"
    and last: "xs ! n = Fin b"
    and inner: "\<bar>s - q\<bar> + 2 * e \<le> eps"
    and final_gap: "\<bar>b - (of_nat (n - 1) * s + c) - q\<bar> + e \<le> eps"
  shows "list_all (near q eps) (spacings xs)"
  unfolding list_all_length
proof (intro allI impI)
  fix k
  assume "k < length (spacings xs)"
  then have k: "k < n" using len by simp
  from el [OF k] obtain v where v: "xs ! k = Fin v" "\<bar>v - (of_nat k * s + c)\<bar> \<le> e"
    by blast
  have nth: "spacings xs ! k = spacing (Fin v) (xs ! Suc k)"
    using k len by (simp add: spacings_nth v)
  show "near q eps (spacings xs ! k)"
  proof (cases "Suc k < n")
    case True
    from el [OF True] obtain v'
      where v': "xs ! Suc k = Fin v'" "\<bar>v' - (of_nat (Suc k) * s + c)\<bar> \<le> e"
      by blast
    have "of_nat (Suc k) * s = of_nat k * s + s" by (simp add: algebra_simps)
    then have "\<bar>v' - v - q\<bar> \<le> eps" using v(2) v'(2) inner by linarith
    then show ?thesis by (simp add: nth v' spacing_def near_def)
  next
    case False
    then have kn: "Suc k = n" "k = n - 1" using k by simp_all
    have "\<bar>b - v - q\<bar> \<le> eps" using v(2) final_gap unfolding kn(2) [symmetric] by linarith
    then show ?thesis by (simp add: nth kn(1) last spacing_def near_def)
  qed
qed

text \<open>The two arrays of the notebook are such lists.\<close>

lemma linspace_data_nth:
  assumes "1 < num" and "linspace_step start stop num = Fin s" and "s \<noteq> 0"
  shows "i < num - 1 \<Longrightarrow>
      linspace_data start stop num ! i = fadd (fmul (Fin (of_nat i)) (Fin s)) start"
    and "linspace_data start stop num ! (num - 1) = stop"
  using assms by (simp_all add: linspace_data_def arange_def Let_def)

lemma lat_step: "linspace_step (Fin (- 30)) (Fin 30) 120 = Fin (283840312649401 / 2 ^ 49)"
  by (simp add: linspace_step_def fsub_def round_eval)

lemma lon_step:
  "linspace_step (Fin (1 / 4)) (Fin (1439 / 4)) 719 = Fin (2254936025124921 / 2 ^ 52)"
  by (simp add: linspace_step_def fsub_def round_eval)

lemma lat_elements:
  "i < 119 \<Longrightarrow> \<exists>v. data lat_array ! i = Fin v \<and>
     \<bar>v - (of_nat i * (283840312649401 / 2 ^ 49) + (- 30))\<bar> \<le> 1 / 2 ^ 42"
proof -
  assume i: "i < 119"
  have "(of_nat i :: rat) \<le> 119" using i by simp
  then have "(of_nat i :: rat) * (283840312649401 / 2 ^ 49) \<le> 119 * (283840312649401 / 2 ^ 49)"
    by (intro mult_right_mono) simp_all
  then have "(of_nat i :: rat) * (283840312649401 / 2 ^ 49) \<le> 512" by simp
  from elem_error [OF _ this, of "- 30"] show ?thesis
    using i linspace_data_nth(1) [OF _ lat_step, of i] by (simp add: lat_array_def)
qed

lemma lat_last: "data lat_array ! 119 = Fin 30"
  using linspace_data_nth(2) [OF _ lat_step] by (simp add: lat_array_def)

lemma lon_elements:
  "i < 718 \<Longrightarrow> \<exists>v. data lon_array ! i = Fin v \<and>
     \<bar>v - (of_nat i * (2254936025124921 / 2 ^ 52) + 1 / 4)\<bar> \<le> 1 / 2 ^ 42"
proof -
  assume i: "i < 718"
  have "(of_nat i :: rat) \<le> 718" using i by simp
  then have "(of_nat i :: rat) * (2254936025124921 / 2 ^ 52) \<le> 718 * (2254936025124921 / 2 ^ 52)"
    by (intro mult_right_mono) simp_all
  then have "(of_nat i :: rat) * (2254936025124921 / 2 ^ 52) \<le> 512" by simp
  from elem_error [OF _ this, of "1 / 4"] show ?thesis
    using i linspace_data_nth(1) [OF _ lon_step, of i] by (simp add: lon_array_def)
qed

lemma lon_last: "data lon_array ! 718 = Fin (1439 / 4)"
  using linspace_data_nth(2) [OF _ lon_step] by (simp add: lon_array_def)

lemma lat_sorted: "sorted_wrt flt (data lat_array)"
  by (rule grid_sorted [where n = 119, OF _ lat_elements lat_last])
    (simp_all add: lat_array_def)

lemma lon_sorted: "sorted_wrt flt (data lon_array)"
  by (rule grid_sorted [where n = 718, OF _ lon_elements lon_last])
    (simp_all add: lon_array_def)

lemma lat_spacings: "list_all (near (60 / 119) (1 / 2 ^ 40)) (spacings (data lat_array))"
  by (rule grid_spacings [where n = 119, OF _ lat_elements lat_last])
    (simp_all add: lat_array_def)

lemma lon_spacings: "list_all (near (719 / 1436) (1 / 2 ^ 40)) (spacings (data lon_array))"
  by (rule grid_spacings [where n = 718, OF _ lon_elements lon_last])
    (simp_all add: lon_array_def)

lemma round_b64_zero: "round_b64 0 = Fin 0"
  by (simp add: round_b64_def)

lemma lat_first: "data lat_array ! 0 = Fin (- 30)"
  using linspace_data_nth(1) [OF _ lat_step, of 0]
  by (simp add: lat_array_def round_b64_zero round_exact)

lemma lon_first: "data lon_array ! 0 = Fin (1 / 4)"
  using linspace_data_nth(1) [OF _ lon_step, of 0]
  by (simp add: lon_array_def round_b64_zero round_exact)

section \<open>Properties of the sessions the notebook passes through\<close>

lemma notebook_trace_length: "length (trace notebook (fresh ext)) = Suc (length notebook)"
  using run_notebook_result [of ext] unfolding run_notebook_def by (rule trace_length)

lemma zero_or_unbound:
  "agrees c (Some zeros_2d) \<Longrightarrow> (case c of None \<Rightarrow> True | Some a \<Rightarrow> all_zero a)"
  "agrees c (Some zeros_3d) \<Longrightarrow> (case c of None \<Rightarrow> True | Some a \<Rightarrow> all_zero a)"
  by (auto simp: agrees_def all_zero_def zeros_2d_def zeros_3d_def)

lemma sub_final_zero: "sub_namespace n (final_namespace ext) \<Longrightarrow> containers_zero n"
  by (simp add: sub_namespace_def final_namespace_def containers_zero_def containers_2d_def
      containers_3d_def zero_or_unbound)

lemma shaped_or_unbound:
  "agrees c (Some zeros_2d) \<Longrightarrow> has_shape [719, 120] c"
  "agrees c (Some zeros_3d) \<Longrightarrow> has_shape [719, 120, 13] c"
  "agrees c (Some lat_array) \<Longrightarrow> has_shape [120] c"
  "agrees c (Some lon_array) \<Longrightarrow> has_shape [719] c"
  by (auto simp: agrees_def has_shape_def zeros_2d_def zeros_3d_def lat_array_def lon_array_def)

lemma sub_final_shapes: "sub_namespace n (final_namespace ext) \<Longrightarrow> shapes_agree n"
  by (simp add: sub_namespace_def final_namespace_def shapes_agree_def containers_2d_def
      containers_3d_def shaped_or_unbound)

lemma list_all_reached:
  assumes "\<And>w. reached ext w \<Longrightarrow> Q w"
  shows "list_all Q (trace notebook (fresh ext))"
  using trace_reached [of ext] assms by (simp add: list_all_iff)

lemma flt_irrefl: "\<not> flt x x"
  by (cases x) simp_all

lemma sorted_flt_distinct: "sorted_wrt flt xs \<Longrightarrow> distinct xs"
  unfolding sorted_wrt_iff_nth_less distinct_conv_nth
  by (metis flt_irrefl nat_neq_iff)

lemma lon_in_range: "list_all (\<lambda>x. flt (Fin 0) x \<and> flt x (Fin 360)) (data lon_array)"
  unfolding list_all_length
proof (intro allI impI)
  fix i
  assume "i < length (data lon_array)"
  then have i: "i < 719" by (simp add: lon_array_def)
  show "flt (Fin 0) (data lon_array ! i) \<and> flt (data lon_array ! i) (Fin 360)"
  proof (cases "i < 718")
    case True
    from lon_elements [OF True] obtain v where v: "data lon_array ! i = Fin v"
      "\<bar>v - (of_nat i * (2254936025124921 / 2 ^ 52) + 1 / 4)\<bar> \<le> 1 / 2 ^ 42"
      by blast
    have "(0::rat) \<le> of_nat i * (2254936025124921 / 2 ^ 52)" by simp
    moreover have "(of_nat i :: rat) * (2254936025124921 / 2 ^ 52)
        \<le> 718 * (2254936025124921 / 2 ^ 52)"
      using True by (intro mult_right_mono) simp_all
    moreover have "(1::rat) / 2 ^ 42 < 1 / 4" by simp
    moreover have "718 * (2254936025124921 / 2 ^ 52) + 1 / 4 + 1 / 2 ^ 42 < (360::rat)"
      by simp
    ultimately have "0 < v" and "v < 360" using v(2) by linarith+
    then show ?thesis by (simp add: v(1))
  next
    case False
    then have "i = 718" using i by simp
    then show ?thesis by (simp add: lon_last)
  qed
qed

text \<open>
  That the outside world is left alone is a property of the notebook's statements, not of
  statements as such: one that saved something under a name, run from the same fresh
  kernel, would leave another outside world behind.
\<close>

lemma a_statement_that_saves:
  "and_then
     (run_stmts
        [\<lambda>w. Inr (w\<lparr>external := (external w)\<lparr>storage := (storage (external w))(''WV.npy'' \<mapsto> ''0'')\<rparr>\<rparr>)]
        (fresh anaconda_outside))
     (\<lambda>w. Inr (external w)) \<noteq> Inr anaconda_outside"
  by (simp add: fresh_def anaconda_outside_def)

text \<open>
  Nor is it a property of statements as such that the outside world stays out of the
  variables computed: one that bound \<^verbatim>\<open>NLON\<close> to the length of the text of \<^verbatim>\<open>np\<close>
  would give it two values in two outside worlds.
\<close>

lemma a_statement_that_measures:
  "and_then
     (run_stmts
        [import_numpy,
         \<lambda>w. Inr (w\<lparr>ns := (ns w)\<lparr>NLON :=
           map_option (\<lambda>m. int (length (module_repr m))) (np (ns w))\<rparr>\<rparr>)]
        (fresh anaconda_outside))
     (\<lambda>w. Inr (NLON (ns w)))
   \<noteq> and_then
     (run_stmts
        [import_numpy,
         \<lambda>w. Inr (w\<lparr>ns := (ns w)\<lparr>NLON :=
           map_option (\<lambda>m. int (length (module_repr m))) (np (ns w))\<rparr>\<rparr>)]
        (fresh system_outside))
     (\<lambda>w. Inr (NLON (ns w)))"
  by (simp add: fresh_def import_numpy_def anaconda_outside_def system_outside_def
      module_repr_def empty_namespace_def)

section \<open>The claims\<close>

text \<open>
  C1. The grid dimensions follow the dimensional formula: \<^verbatim>\<open>NLON\<close> is
  \<open>floor ((EAST - WEST) / DX)\<close> and \<^verbatim>\<open>NLAT\<close> is \<open>floor ((NORTH - SOUTH) / DX)\<close>. With the
  notebook's constants \<^verbatim>\<open>DX = 0.5\<close>, \<^verbatim>\<open>SOUTH = -30\<close>, \<^verbatim>\<open>NORTH = 30\<close>, \<^verbatim>\<open>WEST = 0.25\<close> and
  \<^verbatim>\<open>EAST = 359.75\<close> that is 719 and 120, and the arrays \<^verbatim>\<open>WV\<close> and \<^verbatim>\<open>AT\<close> have the shape
  \<^verbatim>\<open>(NLON, NLAT)\<close>. The code computes the two quotients in binary64 and truncates them
  with \<^verbatim>\<open>int\<close>; both quotients are exact and not negative, so it agrees with the formula
  in exact arithmetic.
\<close>

theorem grid_dimensions:
  "final ext DX = Inr (Some (Fin (1 / 2))) \<and>
   final ext SOUTH = Inr (Some (- 30)) \<and> final ext NORTH = Inr (Some 30) \<and>
   final ext WEST = Inr (Some (Fin (1 / 4))) \<and> final ext EAST = Inr (Some (Fin (1439 / 4))) \<and>
   final ext NLON = Inr (Some (dimension_formula (1 / 4) (1439 / 4) (1 / 2))) \<and>
   final ext NLAT = Inr (Some (dimension_formula (- 30) 30 (1 / 2))) \<and>
   final ext NLON = Inr (Some 719) \<and> final ext NLAT = Inr (Some 120) \<and>
   final ext grid_shape = Inr (Some [719, 120]) \<and>
   final ext (\<lambda>n. map_option shape (WV n)) = final ext grid_shape \<and>
   final ext (\<lambda>n. map_option shape (AT n)) = final ext grid_shape"
  by (simp add: final_namespace_def dimension_formula_def grid_shape_def zeros_2d_def)

text \<open>
  C2. Nothing is implemented beyond allocating empty arrays: when the notebook has run,
  each of \<^verbatim>\<open>WV\<close>, \<^verbatim>\<open>AT\<close>, \<^verbatim>\<open>WV_before\<close>, \<^verbatim>\<open>WV_after\<close>, \<^verbatim>\<open>dt_before\<close>, \<^verbatim>\<open>dt_after\<close>,
  \<^verbatim>\<open>WV_stack\<close> and \<^verbatim>\<open>tobs_stack\<close> exists and is zero in every element, and no statement
  has modified one of them: at every point of the execution, reached after each of the
  notebook's statements, every container that exists is all zero.
\<close>

theorem containers_all_zero:
  "final ext (\<lambda>n. containers_2d n @ containers_3d n) =
     Inr [Some zeros_2d, Some zeros_2d, Some zeros_2d, Some zeros_2d, Some zeros_2d,
          Some zeros_2d, Some zeros_3d, Some zeros_3d] \<and>
   data zeros_2d = replicate (719 * 120) (Fin 0) \<and>
   data zeros_3d = replicate (719 * 120 * 13) (Fin 0) \<and>
   length (trace notebook (fresh ext)) = Suc (length notebook) \<and>
   list_all (\<lambda>w. containers_zero (ns w)) (trace notebook (fresh ext))"
proof -
  have "list_all (\<lambda>w. containers_zero (ns w)) (trace notebook (fresh ext))"
    by (rule list_all_reached) (auto simp: reached_def dest: sub_final_zero)
  then show ?thesis
    by (simp add: notebook_trace_length final_namespace_def containers_2d_def
        containers_3d_def zeros_2d_def zeros_3d_def)
qed

text \<open>
  C3. \<^verbatim>\<open>DTMAX\<close> is the half-width of the observation stack: \<^verbatim>\<open>WV_stack\<close> and
  \<^verbatim>\<open>tobs_stack\<close> are three-dimensional, their first two dimensions are those of the
  result grid, \<^verbatim>\<open>(NLON, NLAT)\<close>, and the third has \<^verbatim>\<open>2*DTMAX+1\<close> layers, 13 for
  \<^verbatim>\<open>DTMAX = 6\<close>: \<^verbatim>\<open>DTMAX\<close> layers before the centre, the centre, and \<^verbatim>\<open>DTMAX\<close> after it.
\<close>

theorem stack_layers:
  "final ext DTMAX = Inr (Some 6) \<and>
   final ext stack_shape = Inr (Some [719, 120, 13]) \<and>
   final ext (\<lambda>n. map_option shape (WV_stack n)) = final ext stack_shape \<and>
   final ext (\<lambda>n. map_option shape (tobs_stack n)) = final ext stack_shape \<and>
   final ext (\<lambda>n. map_option (\<lambda>a. length (data a)) (WV_stack n)) = Inr (Some (719 * 120 * 13)) \<and>
   final ext (\<lambda>n. map_option (\<lambda>a. length (data a)) (tobs_stack n)) = Inr (Some (719 * 120 * 13)) \<and>
   final ext (\<lambda>n. map_option (\<lambda>d. nat d + 1 + nat d) (DTMAX n)) = Inr (Some 13) \<and>
   final ext (\<lambda>n. map_option (take 2) (stack_shape n)) = final ext grid_shape"
  by (simp add: final_namespace_def stack_shape_def grid_shape_def zeros_3d_def)

text \<open>
  C4. No operation of the notebook fails for the constants it fixes: from a fresh kernel
  every statement (the constants, the two \<^verbatim>\<open>int\<close> conversions, the two \<^verbatim>\<open>linspace\<close>
  calls, the eight \<^verbatim>\<open>np.zeros\<close> allocations and the three \<^verbatim>\<open>whos\<close>) runs and none raises,
  so the execution passes through one world more than the notebook has statements.
\<close>

theorem notebook_never_raises:
  "(\<exists>w. run_notebook ext = Inr w) \<and>
   length (trace notebook (fresh ext)) = Suc (length notebook) \<and>
   length notebook = 23"
  by (simp add: run_notebook_result notebook_trace_length)
    (simp add: notebook_def cell_defs)

text \<open>
  C5, as the specification states it: there is no deterministic behaviour, no variable
  the notebook computes (\<^verbatim>\<open>NLAT\<close>, \<^verbatim>\<open>NLON\<close>, \<^verbatim>\<open>lat\<close>, \<^verbatim>\<open>lon\<close>, \<^verbatim>\<open>WV\<close>, \<^verbatim>\<open>AT\<close>, the
  \<^verbatim>\<open>dt\<close> arrays, the stacks) has a determined final value, and two executions need not
  produce identical values for them. This is false of the code: no two executions,
  whatever the outside worlds they run in, differ in one of these variables.
\<close>

theorem two_executions_differ_counterexample:
  "\<not> (\<exists>ext1 ext2.
        and_then (run_notebook ext1) (\<lambda>w. Inr (computed (ns w)))
          \<noteq> and_then (run_notebook ext2) (\<lambda>w. Inr (computed (ns w))))"
  by (simp add: run_notebook_result computed_def containers_2d_def containers_3d_def
      final_namespace_def)

text \<open>
  C5, amended. Every variable the notebook computes has a determined final value:
  \<^verbatim>\<open>NLAT\<close> is 120, \<^verbatim>\<open>NLON\<close> is 719, \<^verbatim>\<open>lat\<close> and \<^verbatim>\<open>lon\<close> are the two arrays \<^verbatim>\<open>linspace\<close>
  computes from the constants, and the eight containers are the zero-filled arrays; two
  executions of the notebook produce identical values for these variables.
\<close>

theorem notebook_deterministic:
  "final ext computed =
     Inr (Some 120, Some 719,
          [Some lat_array, Some lon_array, Some zeros_2d, Some zeros_2d, Some zeros_2d,
           Some zeros_2d, Some zeros_2d, Some zeros_2d, Some zeros_3d, Some zeros_3d]) \<and>
   final ext computed = final ext' computed"
  by (simp add: computed_def containers_2d_def containers_3d_def final_namespace_def)



text \<open>
  C7. The spacing of the coordinate arrays is not the declared cell size \<^verbatim>\<open>DX\<close>. The
  step \<^verbatim>\<open>linspace\<close> uses for \<^verbatim>\<open>lat\<close> is \<open>(NORTH - SOUTH) / (NLAT - 1) = 60 / 119\<close> and for
  \<^verbatim>\<open>lon\<close> it is \<open>(EAST - WEST) / (NLON - 1) = 359.5 / 718\<close>, each as a float, and neither is
  \<^verbatim>\<open>DX = 0.5\<close>. Each of the 119 distances between adjacent latitudes is \<open>60 / 119\<close> and
  each of the 718 between adjacent longitudes is \<open>359.5 / 718\<close>, up to the rounding of the
  two points (less than \<open>2 ^ - 40\<close>), and none is \<open>0.5\<close>.
\<close>

theorem coordinate_spacing:
  "final ext lat = Inr (Some lat_array) \<and> final ext lon = Inr (Some lon_array) \<and>
   final ext DX = Inr (Some (Fin (1 / 2))) \<and>
   linspace_step (Fin (- 30)) (Fin 30) 120 = round_b64 (60 / 119) \<and>
   linspace_step (Fin (1 / 4)) (Fin (1439 / 4)) 719 = round_b64 ((719 / 2) / 718) \<and>
   round_b64 (60 / 119) \<noteq> Fin (1 / 2) \<and> round_b64 ((719 / 2) / 718) \<noteq> Fin (1 / 2) \<and>
   length (spacings (data lat_array)) = 119 \<and>
   length (spacings (data lon_array)) = 718 \<and>
   list_all (near (60 / 119) (1 / 2 ^ 40)) (spacings (data lat_array)) \<and>
   list_all (near ((719 / 2) / 718) (1 / 2 ^ 40)) (spacings (data lon_array)) \<and>
   list_all (\<lambda>g. g \<noteq> Some (1 / 2)) (spacings (data lat_array)) \<and>
   list_all (\<lambda>g. g \<noteq> Some (1 / 2)) (spacings (data lon_array))"
proof -
  have r: "round_b64 (60 / 119) = Fin (283840312649401 / 2 ^ 49)"
    "round_b64 (719 / 1436) = Fin (2254936025124921 / 2 ^ 52)"
    by (simp_all add: round_eval)
  have "\<not> near (60 / 119) (1 / 2 ^ 40) (Some (1 / 2))"
    and "\<not> near (719 / 1436) (1 / 2 ^ 40) (Some (1 / 2))"
    by (simp_all add: near_def)
  then have "list_all (\<lambda>g. g \<noteq> Some (1 / 2)) (spacings (data lat_array))"
    and "list_all (\<lambda>g. g \<noteq> Some (1 / 2)) (spacings (data lon_array))"
    using lat_spacings lon_spacings unfolding list_all_iff by blast+
  then show ?thesis
    using lat_spacings lon_spacings
    by (simp add: r lat_step lon_step final_namespace_def)
      (simp add: lat_array_def lon_array_def)
qed

text \<open>
  C8. The coordinate arrays increase strictly, and their ends are exact:
  \<^verbatim>\<open>lat[0] = SOUTH = -30\<close>, \<^verbatim>\<open>lat[NLAT-1] = NORTH = 30\<close>, \<^verbatim>\<open>lon[0] = WEST = 0.25\<close> and
  \<^verbatim>\<open>lon[NLON-1] = EAST = 359.75\<close>. The longitudes do not wrap: they are distinct and all
  lie strictly between 0 and 360.
\<close>

theorem coordinates_increase:
  "final ext lat = Inr (Some lat_array) \<and> final ext lon = Inr (Some lon_array) \<and>
   final ext SOUTH = Inr (Some (- 30)) \<and> final ext NORTH = Inr (Some 30) \<and>
   final ext WEST = Inr (Some (Fin (1 / 4))) \<and> final ext EAST = Inr (Some (Fin (1439 / 4))) \<and>
   final ext NLAT = Inr (Some 120) \<and> final ext NLON = Inr (Some 719) \<and>
   length (data lat_array) = 120 \<and> length (data lon_array) = 719 \<and>
   sorted_wrt flt (data lat_array) \<and> sorted_wrt flt (data lon_array) \<and>
   data lat_array ! 0 = Fin (- 30) \<and> data lat_array ! (120 - 1) = Fin 30 \<and>
   data lon_array ! 0 = Fin (1 / 4) \<and> data lon_array ! (719 - 1) = Fin (1439 / 4) \<and>
   distinct (data lon_array) \<and>
   list_all (\<lambda>x. flt (Fin 0) x \<and> flt x (Fin 360)) (data lon_array)"
  using lat_sorted lon_sorted sorted_flt_distinct [OF lon_sorted] lon_in_range
  by (simp add: lat_first lat_last lon_first lon_last final_namespace_def)
    (simp add: lat_array_def lon_array_def)

text \<open>
  C9. The shapes agree throughout: at every point of the execution each of the six
  two-dimensional containers that exists has the shape \<^verbatim>\<open>(NLON, NLAT) = (719, 120)\<close> and
  each of the two stacks that exists has the shape
  \<^verbatim>\<open>(NLON, NLAT, 2*DTMAX+1) = (719, 120, 13)\<close>, with \<^verbatim>\<open>NLON = len(lon)\<close> and
  \<^verbatim>\<open>NLAT = len(lat)\<close>; at the end all eight exist.
\<close>

theorem shapes_agree_throughout:
  "list_all (\<lambda>w. shapes_agree (ns w)) (trace notebook (fresh ext)) \<and>
   length (trace notebook (fresh ext)) = Suc (length notebook) \<and>
   final ext grid_shape = Inr (Some [719, 120]) \<and>
   final ext stack_shape = Inr (Some [719, 120, 13]) \<and>
   final ext (\<lambda>n. map (map_option shape) (containers_2d n)) =
     Inr [Some [719, 120], Some [719, 120], Some [719, 120], Some [719, 120],
          Some [719, 120], Some [719, 120]] \<and>
   final ext (\<lambda>n. map (map_option shape) (containers_3d n)) =
     Inr [Some [719, 120, 13], Some [719, 120, 13]] \<and>
   final ext (\<lambda>n. map_option (\<lambda>a. int (length (data a))) (lon n)) = final ext NLON \<and>
   final ext (\<lambda>n. map_option (\<lambda>a. int (length (data a))) (lat n)) = final ext NLAT"
proof -
  have "list_all (\<lambda>w. shapes_agree (ns w)) (trace notebook (fresh ext))"
    by (rule list_all_reached) (auto simp: reached_def dest: sub_final_shapes)
  then show ?thesis
    by (simp add: notebook_trace_length final_namespace_def grid_shape_def stack_shape_def
        containers_2d_def containers_3d_def zeros_2d_def zeros_3d_def lat_array_def
        lon_array_def)
qed

end
